theory Spec2Isabelle
  imports Complex_Main "HOL-Library.AList" "HOL-Library.Sublist"
begin

section \<open>The window registry of window-handler.ts\<close>

text \<open>
  The class \<^verbatim>\<open>WindowHandler\<close> keeps its windows in a plain JavaScript object
  (\<^verbatim>\<open>this.windows = {}\<close>) and in one slot per kind of window. A window is an object of
  the host (an Electron \<^verbatim>\<open>BrowserWindow\<close>); the code compares windows by reference
  (\<^verbatim>\<open>===\<close>), so a window is modelled by its identity, a number the host gives out once.

  The object \<^verbatim>\<open>this.windows\<close> is modelled by its own properties and its prototype.
  The own properties are an association list from property name to window, kept in the
  order in which \<^verbatim>\<open>for ... in\<close> visits them: first the names that are array indices, in
  ascending order, then the other names in the order of their creation. The prototype is
  \<^verbatim>\<open>Object.prototype\<close> until a window is assigned to the name \<^verbatim>\<open>__proto__\<close>.
\<close>

type_synonym handle = nat

text \<open>
  What \<^verbatim>\<open>this.windows\<close> inherits from, and the values that reading a property of it can
  give: \<^verbatim>\<open>undefined\<close>, a window, a boolean, another value that counts as true (a
  function, an object that is not a window), another value that counts as false.
\<close>

datatype prototype = ObjectPrototype | WindowPrototype handle

datatype jsValue = Undefined | Falsy | Truthy | Window handle | Boolean bool

type_synonym webContents = nat

text \<open>
  The closures that the class registers as listeners. Each call of a \<^verbatim>\<open>create...\<close> method
  builds fresh closures; a closure is identified by the values it captures. The closures
  of a basic-auth dialog capture the \<^verbatim>\<open>clearSettings\<close> and \<^verbatim>\<open>callback\<close> arguments of
  their call, named here by the number of the dialog window that the call created.
\<close>

datatype ipcListener =
    CloseBasicAuth handle
  | Login handle
  | SourceSelected webContents int

datatype winListener =
    BasicAuthClose handle
  | PickerLoaded string
  | PickerClosed string
  | MainClose

text \<open>
  What a renderer sends with a message: nothing, an object with a user name and a password,
  or a text.
\<close>

datatype payload = NoPayload | Credentials string string | Source string

text \<open>
  What the class does to its collaborators, in the order in which it does it.
  \<open>CallbackUndefined\<close> is the call \<^verbatim>\<open>callback(undefined, undefined)\<close>; \<open>Send\<close> sends
  a text on a channel, \<open>SendPayload\<close> a payload that is not a text.
\<close>

datatype effect =
    ClearSettings handle
  | Callback handle string string
  | CallbackUndefined handle
  | Send webContents string string
  | SendPayload webContents string payload
  | SendToWindow handle string
  | PreventDefault
  | Hide handle
  | Minimize handle
  | AppQuit
  | ObjectDestroyed handle string

datatype registration = On | Once

record state =
  windows :: "(string \<times> handle) list"
  windowsPrototype :: prototype
  mainWindow :: "handle option"
  screenPickerWindow :: "handle option"
  basicAuthWindow :: "handle option"
  willQuitApp :: bool
  minimizeOnClose :: bool
  isMac :: bool
  nextHandle :: handle
  alive :: "handle set"
  component :: "(handle \<times> string) list"
  ipcMain :: "(string \<times> ipcListener) list"
  winEvents :: "(handle \<times> string \<times> registration \<times> winListener) list"
  defaultPrevented :: bool
  thrown :: bool
  effects :: "effect list"

text \<open>
  The state after the constructor: no window, no listener. The two settings the class
  reads (\<^verbatim>\<open>config.minimizeOnClose\<close>, \<^verbatim>\<open>isMac\<close>) are parameters.
\<close>

definition initialState :: "bool \<Rightarrow> bool \<Rightarrow> state" where
  "initialState minimizeOnClose' isMac' =
     \<lparr> windows = [], windowsPrototype = ObjectPrototype, mainWindow = None,
       screenPickerWindow = None, basicAuthWindow = None,
       willQuitApp = False, minimizeOnClose = minimizeOnClose', isMac = isMac',
       nextHandle = 1, alive = {}, component = [], ipcMain = [], winEvents = [],
       defaultPrevented = False, thrown = False, effects = [] \<rparr>"

subsection \<open>addWindow, removeWindow, hasWindow\<close>

text \<open>
  \<^verbatim>\<open>
  public addWindow(key: string, browserWindow: Electron.BrowserWindow): void {
      this.windows[ key ] = browserWindow;
  }
  public removeWindow(key: string): void {
      delete this.windows[ key ];
  }
  public hasWindow(key: string, window: Electron.BrowserWindow): boolean {
      const browserWindow = this.windows[ key ];
      return browserWindow && window === browserWindow;
  }
  \<close>
\<close>

text \<open>
  The names that are array indices: the decimal numerals, without a sign and without leading
  zeros, of the numbers below 4294967295.
\<close>

definition decimalValue :: "string \<Rightarrow> nat" where
  "decimalValue key = foldl (\<lambda>n c. 10 * n + (of_char c - 48)) 0 key"

definition arrayIndex :: "string \<Rightarrow> nat option" where
  "arrayIndex key =
     (if key \<noteq> [] \<and> list_all (\<lambda>c. c \<in> set ''0123456789'') key
         \<and> (key = ''0'' \<or> hd key \<noteq> CHR ''0'') \<and> decimalValue key < 4294967295
      then Some (decimalValue key) else None)"

text \<open>
  \<^verbatim>\<open>o[key] = v\<close> on the own properties: an existing property keeps its place; a new one
  whose name is an array index goes before the first property that is not an array index
  below it; any other new one goes last.
\<close>

definition indexBelow :: "nat \<Rightarrow> string \<times> handle \<Rightarrow> bool" where
  "indexBelow n p = (case arrayIndex (fst p) of None \<Rightarrow> False | Some m \<Rightarrow> m < n)"

definition setProperty :: "string \<Rightarrow> handle \<Rightarrow> (string \<times> handle) list \<Rightarrow> (string \<times> handle) list" where
  "setProperty key v ps =
     (if map_of ps key \<noteq> None then AList.update key v ps
      else case arrayIndex key of
             None \<Rightarrow> ps @ [(key, v)]
           | Some n \<Rightarrow> takeWhile (indexBelow n) ps @ [(key, v)] @ dropWhile (indexBelow n) ps)"

text \<open>
  \<^verbatim>\<open>this.windows[key] = browserWindow\<close>. The name \<^verbatim>\<open>__proto__\<close> is inherited from
  \<^verbatim>\<open>Object.prototype\<close> as a property with a setter: unless the object has a property of
  this name of its own, assigning a window to it makes the window the prototype of the
  object and creates no property. Under every other name \<^verbatim>\<open>Object.prototype\<close> has
  nothing that stands in the way of the assignment, which creates or changes a property of
  the object's own. (Once a window is the prototype, a name under which that window has a
  member that cannot be assigned to, as \<^verbatim>\<open>id\<close> of a \<^verbatim>\<open>BrowserWindow\<close>, would refuse the
  assignment; the statements below about \<open>addWindow\<close> are about a registry whose
  prototype is \<^verbatim>\<open>Object.prototype\<close> when they begin.)
\<close>

definition addWindow :: "string \<Rightarrow> handle \<Rightarrow> state \<Rightarrow> state" where
  "addWindow key browserWindow s =
     (if key = ''__proto__'' \<and> map_of (windows s) key = None
      then s\<lparr>windowsPrototype := WindowPrototype browserWindow\<rparr>
      else s\<lparr>windows := setProperty key browserWindow (windows s)\<rparr>)"

text \<open>\<^verbatim>\<open>delete this.windows[key]\<close> removes a property of the object's own and nothing else.\<close>

definition removeWindow :: "string \<Rightarrow> state \<Rightarrow> state" where
  "removeWindow key s = s\<lparr>windows := AList.delete key (windows s)\<rparr>"

text \<open>
  \<^verbatim>\<open>this.windows[key]\<close>: the object's own property of this name, or else what it
  inherits. From \<^verbatim>\<open>Object.prototype\<close> it inherits functions under the names listed
  below, and under \<^verbatim>\<open>__proto__\<close> a getter that gives the prototype, here
  \<^verbatim>\<open>Object.prototype\<close> itself; none of these values is a window. Once a window is the
  prototype, \<^verbatim>\<open>__proto__\<close> gives that window, and every other name gives what the window
  has under it, which is the host's to say: \<open>member w key\<close> stands for \<^verbatim>\<open>w[key]\<close>.
\<close>

definition objectPrototypeNames :: "string list" where
  "objectPrototypeNames =
     [''constructor'', ''__defineGetter__'', ''__defineSetter__'', ''hasOwnProperty'',
      ''__lookupGetter__'', ''__lookupSetter__'', ''isPrototypeOf'', ''propertyIsEnumerable'',
      ''toString'', ''valueOf'', ''toLocaleString'']"

definition getProperty :: "(handle \<Rightarrow> string \<Rightarrow> jsValue) \<Rightarrow> string \<Rightarrow> state \<Rightarrow> jsValue" where
  "getProperty member key s =
     (case map_of (windows s) key of
        Some browserWindow \<Rightarrow> Window browserWindow
      | None \<Rightarrow>
          (case windowsPrototype s of
             ObjectPrototype \<Rightarrow>
               if key = ''__proto__'' \<or> key \<in> set objectPrototypeNames then Truthy else Undefined
           | WindowPrototype w \<Rightarrow>
               if key = ''__proto__'' then Window w else member w key))"

text \<open>
  \<^verbatim>\<open>browserWindow && window === browserWindow\<close> is \<^verbatim>\<open>browserWindow\<close> itself when that
  counts as false, and the result of the comparison otherwise.
\<close>

definition falsy :: "jsValue \<Rightarrow> bool" where
  "falsy v = (v = Undefined \<or> v = Falsy \<or> v = Boolean False)"

definition hasWindow :: "(handle \<Rightarrow> string \<Rightarrow> jsValue) \<Rightarrow> string \<Rightarrow> handle \<Rightarrow> state \<Rightarrow> jsValue" where
  "hasWindow member key window s =
     (let browserWindow = getProperty member key s in
      if falsy browserWindow then browserWindow else Boolean (Window window = browserWindow))"

subsection \<open>destroyAllWindow\<close>

text \<open>
  \<^verbatim>\<open>
  private destroyAllWindow(): void {
      for (const key in this.windows) {
          if (Object.prototype.hasOwnProperty.call(this.windows, key)) {
              const winKey = this.windows[ key ];
              this.removeWindow(winKey);
          }
      }
      this.mainWindow = null;
  }
  \<close>
  The variable \<^verbatim>\<open>winKey\<close> holds the value stored at \<^verbatim>\<open>key\<close>, a window, and it is this
  window that is handed to \<^verbatim>\<open>removeWindow\<close>. There \<^verbatim>\<open>delete this.windows[winKey]\<close>
  converts the object to a property name with \<^verbatim>\<open>toString\<close>. A window has no
  \<^verbatim>\<open>toString\<close> of its own, and the one it inherits gives the same text for every
  window, \<^verbatim>\<open>[object Object]\<close>.

  The loop visits the names of the properties that the object had when the loop began, its
  own and the inherited ones that can be enumerated; the test lets only its own through,
  and a property deleted before its turn is skipped.
\<close>

definition toPropertyKey :: "handle \<Rightarrow> string" where
  "toPropertyKey browserWindow = ''[object Object]''"

fun destroyLoop :: "string list \<Rightarrow> state \<Rightarrow> state" where
  "destroyLoop [] s = s"
| "destroyLoop (key # keys) s =
     (case map_of (windows s) key of
        None \<Rightarrow> destroyLoop keys s
      | Some winKey \<Rightarrow> destroyLoop keys (removeWindow (toPropertyKey winKey) s))"

definition destroyAllWindow :: "state \<Rightarrow> state" where
  "destroyAllWindow s = (destroyLoop (map fst (windows s)) s)\<lparr>mainWindow := None\<rparr>"

section \<open>The host: windows, events and listeners\<close>

text \<open>
  The class runs inside an event loop. Everything it does happens in a callback that the host
  calls: a message of a renderer on a channel of \<^verbatim>\<open>ipcMain\<close>, an event of a window
  (\<^verbatim>\<open>did-finish-load\<close>, \<^verbatim>\<open>close\<close>, \<^verbatim>\<open>closed\<close>), or a call of one of the public methods.
  The state records which windows the host has created and which of them still exist, the
  listeners registered on \<^verbatim>\<open>ipcMain\<close> and on each window in the order of registration,
  and the calls made to collaborators (\<open>effects\<close>).
\<close>

text \<open>
  Modelled from the spec: \<^verbatim>\<open>windowExists\<close> (imported from window-utils, which is not
  among the sources) is the liveness check of a window: it holds while the window has
  not been closed.
\<close>

definition windowExists :: "handle \<Rightarrow> state \<Rightarrow> bool" where
  "windowExists w s = (w \<in> alive s)"

text \<open>
  \<^verbatim>\<open>new BrowserWindow(opts)\<close>: the host creates a window that did not exist before. The
  model notes what the window shows.
\<close>

definition newBrowserWindow :: "string \<Rightarrow> state \<Rightarrow> handle \<times> state" where
  "newBrowserWindow shown s =
     (nextHandle s,
      s\<lparr>nextHandle := Suc (nextHandle s),
        alive := insert (nextHandle s) (alive s),
        component := component s @ [(nextHandle s, shown)]\<rparr>)"

text \<open>
  Modelled from the spec: \<^verbatim>\<open>createComponentWindow\<close> (imported from window-utils, which is
  not among the sources) asks the windowing host for a new window showing the named
  component.
\<close>

definition createComponentWindow :: "string \<Rightarrow> state \<Rightarrow> handle \<times> state" where
  "createComponentWindow componentName s = newBrowserWindow componentName s"

definition perform :: "effect \<Rightarrow> state \<Rightarrow> state" where
  "perform e s = s\<lparr>effects := effects s @ [e]\<rparr>"

text \<open>
  \<^verbatim>\<open>emitter.removeListener(name, f)\<close> of the host's event emitter removes the most
  recently added registration of \<open>f\<close>, also when \<open>f\<close> was registered with \<^verbatim>\<open>once\<close>.
\<close>

definition removeListener :: "'a \<Rightarrow> 'a list \<Rightarrow> 'a list" where
  "removeListener l ls = rev (remove1 l (rev ls))"

definition ipcOnce :: "string \<Rightarrow> ipcListener \<Rightarrow> state \<Rightarrow> state" where
  "ipcOnce channel l s = s\<lparr>ipcMain := ipcMain s @ [(channel, l)]\<rparr>"

definition ipcRemoveListener :: "string \<Rightarrow> ipcListener \<Rightarrow> state \<Rightarrow> state" where
  "ipcRemoveListener channel l s = s\<lparr>ipcMain := removeListener (channel, l) (ipcMain s)\<rparr>"

definition winOn :: "handle \<Rightarrow> string \<Rightarrow> winListener \<Rightarrow> state \<Rightarrow> state" where
  "winOn w name l s = s\<lparr>winEvents := winEvents s @ [(w, name, On, l)]\<rparr>"

definition winOnce :: "handle \<Rightarrow> string \<Rightarrow> winListener \<Rightarrow> state \<Rightarrow> state" where
  "winOnce w name l s = s\<lparr>winEvents := winEvents s @ [(w, name, Once, l)]\<rparr>"

subsection \<open>The close handler of the main window\<close>

text \<open>
  \<^verbatim>\<open>
  this.mainWindow.on('close', (event) => {
      if (!this.mainWindow || !windowExists(this.mainWindow)) {
          return;
      }
      if (this.willQuitApp) {
          return this.destroyAllWindow();
      }
      if (this.config.minimizeOnClose) {
          event.preventDefault();
          isMac ? this.mainWindow.hide() : this.mainWindow.minimize();
      } else {
          app.quit();
      }
  });
  \<close>
\<close>

definition mainWindowClose :: "state \<Rightarrow> state" where
  "mainWindowClose s =
     (case mainWindow s of
        None \<Rightarrow> s
      | Some w \<Rightarrow>
          if \<not> windowExists w s then s
          else if willQuitApp s then destroyAllWindow s
          else if minimizeOnClose s then
            perform (if isMac s then Hide w else Minimize w)
              ((perform PreventDefault s)\<lparr>defaultPrevented := True\<rparr>)
          else perform AppQuit s)"

subsection \<open>The listeners on windows\<close>

text \<open>
  The \<^verbatim>\<open>close\<close> listener of a basic-auth dialog and the \<^verbatim>\<open>did-finish-load\<close> and
  \<^verbatim>\<open>closed\<close> listeners of a screen picker:
  \<^verbatim>\<open>
  this.basicAuthWindow.on('close', () => {
      ipcMain.removeListener('basic-auth-closed', closeBasicAuth);
      ipcMain.removeListener('basic-auth-login', login);
  });
  this.screenPickerWindow.webContents.once('did-finish-load', () => {
      if (!this.screenPickerWindow || !windowExists(this.screenPickerWindow)) {
          return;
      }
      this.screenPickerWindow.webContents.send('screen-picker-data', { sources, id });
      this.addWindow(opts.winKey, this.screenPickerWindow);
  });
  this.screenPickerWindow.once('closed', () => {
      this.removeWindow(opts.winKey);
      this.screenPickerWindow = null;
  });
  \<close>
\<close>

fun runWinListener :: "winListener \<Rightarrow> state \<Rightarrow> state" where
  "runWinListener (BasicAuthClose d) s =
     ipcRemoveListener ''basic-auth-login'' (Login d)
       (ipcRemoveListener ''basic-auth-closed'' (CloseBasicAuth d) s)"
| "runWinListener (PickerLoaded winKey) s =
     (case screenPickerWindow s of
        None \<Rightarrow> s
      | Some w \<Rightarrow>
          if \<not> windowExists w s then s
          else addWindow winKey w (perform (SendToWindow w ''screen-picker-data'') s))"
| "runWinListener (PickerClosed winKey) s =
     (removeWindow winKey s)\<lparr>screenPickerWindow := None\<rparr>"
| "runWinListener MainClose s = mainWindowClose s"

text \<open>
  Emitting an event on a window calls the listeners registered for it at that moment, in
  the order of registration; a listener registered with \<^verbatim>\<open>once\<close> is removed before it
  is called.
\<close>

fun winDeliver :: "(registration \<times> winListener) list \<Rightarrow> handle \<Rightarrow> string \<Rightarrow> state \<Rightarrow> state" where
  "winDeliver [] w name s = s"
| "winDeliver ((r, l) # ls) w name s =
     winDeliver ls w name
       (runWinListener l
          (if r = Once then s\<lparr>winEvents := removeListener (w, name, r, l) (winEvents s)\<rparr> else s))"

definition winEmit :: "handle \<Rightarrow> string \<Rightarrow> state \<Rightarrow> state" where
  "winEmit w name s =
     winDeliver (map (\<lambda>(w', name', r, l). (r, l))
                  (filter (\<lambda>(w', name', r, l). w' = w \<and> name' = name) (winEvents s))) w name s"

text \<open>
  Closing a window that exists, by the user or by \<^verbatim>\<open>close()\<close>: the host emits
  \<^verbatim>\<open>close\<close>; unless a listener called \<^verbatim>\<open>event.preventDefault()\<close> the window is then
  destroyed and \<^verbatim>\<open>closed\<close> is emitted. The model completes all of this before
  \<^verbatim>\<open>close()\<close> returns. Calling \<^verbatim>\<open>close()\<close> on a window that no longer exists raises
  the host's error \<^verbatim>\<open>Object has been destroyed\<close>, which ends the callback that made the
  call.
\<close>

definition hostClose :: "handle \<Rightarrow> state \<Rightarrow> state" where
  "hostClose w s =
     (let s1 = winEmit w ''close'' (s\<lparr>defaultPrevented := False\<rparr>) in
      if defaultPrevented s1 then s1\<lparr>defaultPrevented := False\<rparr>
      else winEmit w ''closed'' (s1\<lparr>alive := alive s1 - {w}\<rparr>))"

definition browserWindowClose :: "handle \<Rightarrow> state \<Rightarrow> state" where
  "browserWindowClose w s =
     (if w \<in> alive s then hostClose w s
      else (perform (ObjectDestroyed w ''close'') s)\<lparr>thrown := True\<rparr>)"

subsection \<open>The basic-auth dialog\<close>

text \<open>
  \<^verbatim>\<open>
  const closeBasicAuth = (shouldClearSettings = true) => {
      if (shouldClearSettings) {
          clearSettings();
      }
      if (this.basicAuthWindow && !windowExists(this.basicAuthWindow)) {
          this.basicAuthWindow.close();
          this.basicAuthWindow = null;
      }
  };
  const login = (_event, arg) => {
      const { username, password } = arg;
      callback(username, password);
      closeBasicAuth(false);
  };
  \<close>
  \<open>d\<close> names the dialog whose \<^verbatim>\<open>clearSettings\<close> and \<^verbatim>\<open>callback\<close> the closures hold.
\<close>

definition closeBasicAuth :: "handle \<Rightarrow> bool \<Rightarrow> state \<Rightarrow> state" where
  "closeBasicAuth d shouldClearSettings s =
     (let s1 = (if shouldClearSettings then perform (ClearSettings d) s else s) in
      case basicAuthWindow s1 of
        None \<Rightarrow> s1
      | Some w \<Rightarrow>
          if \<not> windowExists w s1 then
            (let s2 = browserWindowClose w s1 in
             if thrown s2 then s2 else s2\<lparr>basicAuthWindow := None\<rparr>)
          else s1)"

text \<open>
  Taking \<^verbatim>\<open>username\<close> and \<^verbatim>\<open>password\<close> out of a message without a payload raises a
  \<^verbatim>\<open>TypeError\<close>; a text has neither, and both are \<^verbatim>\<open>undefined\<close> then.
\<close>

definition login :: "handle \<Rightarrow> payload \<Rightarrow> state \<Rightarrow> state" where
  "login d arg s =
     (case arg of
        NoPayload \<Rightarrow> s\<lparr>thrown := True\<rparr>
      | Credentials username password \<Rightarrow>
          closeBasicAuth d False (perform (Callback d username password) s)
      | Source src \<Rightarrow> closeBasicAuth d False (perform (CallbackUndefined d) s))"

subsection \<open>The screen picker\<close>

text \<open>
  \<^verbatim>\<open>
  ipcMain.once('screen-source-selected', (_event, source) => {
      window.send('start-share' + id, source);
      if (this.screenPickerWindow && windowExists(this.screenPickerWindow)) {
          this.screenPickerWindow.close();
      }
  });
  \<close>
  \<^verbatim>\<open>'start-share' + id\<close> appends the decimal text of the number \<open>id\<close>.
\<close>

definition digit :: "nat \<Rightarrow> char" where
  "digit n = ''0123456789'' ! n"

fun natToString :: "nat \<Rightarrow> string" where
  "natToString n =
     (if n < 10 then [digit n]
      else natToString (n div 10) @ [digit (n mod 10)])"

declare natToString.simps [simp del]

definition numberToString :: "int \<Rightarrow> string" where
  "numberToString i = (if i < 0 then CHR ''-'' # natToString (nat (- i)) else natToString (nat i))"

definition sourceSelected :: "webContents \<Rightarrow> int \<Rightarrow> payload \<Rightarrow> state \<Rightarrow> state" where
  "sourceSelected window id' arg s =
     (let s1 = perform (case arg of
                          Source src \<Rightarrow> Send window (''start-share'' @ numberToString id') src
                        | _ \<Rightarrow> SendPayload window (''start-share'' @ numberToString id') arg) s in
      case screenPickerWindow s1 of
        None \<Rightarrow> s1
      | Some w \<Rightarrow> if windowExists w s1 then browserWindowClose w s1 else s1)"

subsection \<open>Messages on ipcMain\<close>

text \<open>
  A listener called by \<^verbatim>\<open>ipcMain\<close> receives the event object first and the payload of
  the message second. \<^verbatim>\<open>closeBasicAuth\<close> therefore receives the event object as its
  \<^verbatim>\<open>shouldClearSettings\<close>; an object counts as true.
\<close>

fun runIpcListener :: "ipcListener \<Rightarrow> payload \<Rightarrow> state \<Rightarrow> state" where
  "runIpcListener (CloseBasicAuth d) arg s = closeBasicAuth d True s"
| "runIpcListener (Login d) arg s = login d arg s"
| "runIpcListener (SourceSelected window id') arg s = sourceSelected window id' arg s"

text \<open>
  A message calls the listeners registered on its channel at that moment, in the order of
  registration. Every listener of this file is registered with \<^verbatim>\<open>once\<close>, so it is
  removed before it is called. An error raised by a listener ends the delivery.
\<close>

fun ipcDeliver :: "ipcListener list \<Rightarrow> string \<Rightarrow> payload \<Rightarrow> state \<Rightarrow> state" where
  "ipcDeliver [] channel arg s = s"
| "ipcDeliver (l # ls) channel arg s =
     (if thrown s then s
      else ipcDeliver ls channel arg (runIpcListener l arg (ipcRemoveListener channel l s)))"

definition ipcEmit :: "string \<Rightarrow> payload \<Rightarrow> state \<Rightarrow> state" where
  "ipcEmit channel arg s =
     ipcDeliver (map snd (filter (\<lambda>(c, l). c = channel) (ipcMain s))) channel arg s"

subsection \<open>createBasicAuthWindow and createScreenPickerWindow\<close>

text \<open>
  \<^verbatim>\<open>createBasicAuthWindow\<close> (lines 435 to 469): the dialog is created and stored in its
  slot, the \<^verbatim>\<open>close\<close> listener is put on it, and the two closures are registered on
  \<^verbatim>\<open>ipcMain\<close>, \<^verbatim>\<open>basic-auth-closed\<close> first. Its \<^verbatim>\<open>did-finish-load\<close> listener only sends
  data to the dialog and is left out.
\<close>

definition createBasicAuthWindow :: "state \<Rightarrow> state" where
  "createBasicAuthWindow s =
     (let (w, s1) = createComponentWindow ''basic-auth'' s;
          s2 = s1\<lparr>basicAuthWindow := Some w\<rparr>;
          s3 = winOn w ''close'' (BasicAuthClose w) s2;
          s4 = ipcOnce ''basic-auth-closed'' (CloseBasicAuth w) s3
      in ipcOnce ''basic-auth-login'' (Login w) s4)"

text \<open>
  \<^verbatim>\<open>createScreenPickerWindow(window, sources, id)\<close> (lines 396 to 421). \<open>winKey\<close> is the
  key that \<^verbatim>\<open>getGuid()\<close> returns for this call.
\<close>

definition createScreenPickerWindow :: "webContents \<Rightarrow> int \<Rightarrow> string \<Rightarrow> state \<Rightarrow> state" where
  "createScreenPickerWindow window id' winKey s =
     (let s0 = (case screenPickerWindow s of
                  None \<Rightarrow> s
                | Some old \<Rightarrow> if windowExists old s then browserWindowClose old s else s);
          (w, s1) = createComponentWindow ''screen-picker'' s0;
          s2 = s1\<lparr>screenPickerWindow := Some w\<rparr>;
          s3 = winOnce w ''did-finish-load'' (PickerLoaded winKey) s2;
          s4 = ipcOnce ''screen-source-selected'' (SourceSelected window id') s3
      in winOnce w ''closed'' (PickerClosed winKey) s4)"

subsection \<open>createApplication\<close>

text \<open>
  Of \<^verbatim>\<open>createApplication\<close> (lines 183 to 281) the model keeps the creation of the main
  window, its \<^verbatim>\<open>close\<close> listener and its entry in the registry:
  \<^verbatim>\<open>
  this.mainWindow = new BrowserWindow({ ... }) as ICustomBrowserWindow;
  this.mainWindow.on('close', (event) => { ... });
  this.addWindow(this.windowOpts.winKey, this.mainWindow);
  \<close>
  \<open>winKey\<close> is the key that \<^verbatim>\<open>getGuid()\<close> returned to the constructor. The address that
  the window loads is resolved by \<open>resolveUrl\<close> below.
\<close>

definition createApplication :: "string \<Rightarrow> state \<Rightarrow> state" where
  "createApplication winKey s =
     (let (w, s1) = newBrowserWindow ''main'' s;
          s2 = s1\<lparr>mainWindow := Some w\<rparr>;
          s3 = winOn w ''close'' MainClose s2
      in addWindow winKey w s3)"

subsection \<open>What the host can do next\<close>

datatype event =
    CreateApplication string
  | CreateBasicAuthWindow
  | CreateScreenPickerWindow webContents int string
  | Message string payload
  | DidFinishLoad handle
  | UserCloses handle
  | SetWillQuitApp bool

text \<open>
  One turn of the event loop. An error left by the turn before has been reported by then.
  The host sends window events only for windows that exist. \<^verbatim>\<open>willQuitApp\<close> is a public
  field that the rest of the application sets.
\<close>

fun step :: "event \<Rightarrow> state \<Rightarrow> state" where
  "step (CreateApplication winKey) s = createApplication winKey (s\<lparr>thrown := False\<rparr>)"
| "step CreateBasicAuthWindow s = createBasicAuthWindow (s\<lparr>thrown := False\<rparr>)"
| "step (CreateScreenPickerWindow window id' winKey) s =
     createScreenPickerWindow window id' winKey (s\<lparr>thrown := False\<rparr>)"
| "step (Message channel arg) s = ipcEmit channel arg (s\<lparr>thrown := False\<rparr>)"
| "step (DidFinishLoad w) s =
     (if w \<in> alive s then winEmit w ''did-finish-load'' (s\<lparr>thrown := False\<rparr>) else s)"
| "step (UserCloses w) s =
     (if w \<in> alive s then hostClose w (s\<lparr>thrown := False\<rparr>) else s)"
| "step (SetWillQuitApp b) s = s\<lparr>willQuitApp := b, thrown := False\<rparr>"

fun run :: "event list \<Rightarrow> state \<Rightarrow> state" where
  "run [] s = s"
| "run (e # es) s = run es (step e s)"

text \<open>The screen pickers that exist.\<close>

definition livePickers :: "state \<Rightarrow> handle set" where
  "livePickers s = {w \<in> alive s. map_of (component s) w = Some ''screen-picker''}"

section \<open>The screen-sharing indicator\<close>

text \<open>
  \<^verbatim>\<open>
  const indicatorScreen =
      (displayId && electron.screen.getAllDisplays().filter((d) =>
          displayId.includes(d.id.toString()))[ 0 ]) || electron.screen.getPrimaryDisplay();
  const screenRect = indicatorScreen.workArea;
  let opts = { ...WindowHandler.getScreenSharingIndicatorOpts(), ...{ winKey: streamId } };
  if (opts.width && opts.height) {
      opts = Object.assign({}, opts, {
          x: screenRect.x + Math.round((screenRect.width - opts.width) / 2),
          y: screenRect.y + screenRect.height - opts.height,
      });
  }
  \<close>
  The host describes a display by a number \<^verbatim>\<open>id\<close> and a rectangle \<^verbatim>\<open>workArea\<close> whose
  \<^verbatim>\<open>x\<close>, \<^verbatim>\<open>y\<close>, \<^verbatim>\<open>width\<close> and \<^verbatim>\<open>height\<close> are integers. The numbers of the model are
  integers small enough that JavaScript computes with them exactly and prints them in
  decimal digits.
\<close>

record rectangle =
  rect_x :: int
  rect_y :: int
  rect_width :: int
  rect_height :: int

record display =
  display_id :: int
  workArea :: rectangle

record indicatorOpts =
  opt_width :: int
  opt_height :: int
  opt_x :: "int option"
  opt_y :: "int option"
  opt_winKey :: string

definition getScreenSharingIndicatorOpts :: "string \<Rightarrow> indicatorOpts" where
  "getScreenSharingIndicatorOpts guid =
     \<lparr> opt_width = 592, opt_height = 48, opt_x = None, opt_y = None, opt_winKey = guid \<rparr>"

text \<open>\<^verbatim>\<open>s.includes(t)\<close>: the text \<open>t\<close> occurs in \<open>s\<close>.\<close>

fun stringIncludes :: "string \<Rightarrow> string \<Rightarrow> bool" where
  "stringIncludes [] searchString = (searchString = [])"
| "stringIncludes (c # cs) searchString =
     (prefix searchString (c # cs) \<or> stringIncludes cs searchString)"

text \<open>\<^verbatim>\<open>Math.round\<close>: the nearest integer, the upper one of two equally near.\<close>

definition jsRound :: "rat \<Rightarrow> int" where
  "jsRound q = \<lfloor>q + 1 / 2\<rfloor>"

definition matchesDisplay :: "string \<Rightarrow> display \<Rightarrow> bool" where
  "matchesDisplay displayId d = stringIncludes displayId (numberToString (display_id d))"

definition indicatorScreen :: "display list \<Rightarrow> display \<Rightarrow> string \<Rightarrow> display" where
  "indicatorScreen allDisplays primaryDisplay displayId =
     (if displayId = [] then primaryDisplay
      else case filter (matchesDisplay displayId) allDisplays of
             [] \<Rightarrow> primaryDisplay
           | d # ds \<Rightarrow> d)"

definition indicatorWindowOpts ::
  "display list \<Rightarrow> display \<Rightarrow> string \<Rightarrow> string \<Rightarrow> string \<Rightarrow> indicatorOpts" where
  "indicatorWindowOpts allDisplays primaryDisplay displayId streamId guid =
     (let screenRect = workArea (indicatorScreen allDisplays primaryDisplay displayId);
          opts = (getScreenSharingIndicatorOpts guid)\<lparr>opt_winKey := streamId\<rparr>
      in if opt_width opts \<noteq> 0 \<and> opt_height opts \<noteq> 0 then
           opts\<lparr>opt_x := Some (rect_x screenRect
                              + jsRound (of_int (rect_width screenRect - opt_width opts) / 2)),
                opt_y := Some (rect_y screenRect + rect_height screenRect - opt_height opts)\<rparr>
         else opts)"

section \<open>The address of the main window\<close>

text \<open>
  \<^verbatim>\<open>getValidUrl\<close> calls \<^verbatim>\<open>parse\<close> and \<^verbatim>\<open>format\<close> of the \<^verbatim>\<open>url\<close> module of the host
  runtime (Node.js, \<^verbatim>\<open>lib/url.js\<close>), which is not part of the repository. The two
  functions are modelled here as that module defines them in the releases 10 to 12 of the
  runtime, on the part of their domain that the model covers. Every statement below about
  a result of \<open>parse\<close> names the texts it is about, and \<open>parse\<close> returns on every text
  of the characters of the model without an \<^verbatim>\<open>@\<close>.

  \<^item> a text is a list of 8-bit characters, read as the code units below 256;
  \<^item> \<open>parse\<close> is \<^verbatim>\<open>url.parse(text)\<close> with its two optional arguments left out. It is
    \<open>None\<close> on a text outside the model: one with a character that is not printable
    ASCII, with a space or a backslash, or with user information (an \<^verbatim>\<open>@\<close> before the
    end of the host), which the module decodes;
  \<^item> the conversion of a host name to ASCII is the identity on the ASCII names of the model;
  \<^item> \<open>format\<close> is \<^verbatim>\<open>url.format(urlObject)\<close> for an object whose fields are texts or
    \<^verbatim>\<open>null\<close>, as \<open>parse\<close> returns them.
\<close>

record Url =
  protocol :: "string option"
  slashes :: bool
  auth :: "string option"
  host :: "string option"
  port :: "string option"
  hostname :: "string option"
  hash :: "string option"
  search :: "string option"
  query :: "string option"
  pathname :: "string option"
  path :: "string option"
  href :: "string option"

definition emptyUrl :: Url where
  "emptyUrl =
     \<lparr> protocol = None, slashes = False, auth = None, host = None, port = None,
       hostname = None, hash = None, search = None, query = None, pathname = None,
       path = None, href = None \<rparr>"

text \<open>A text or \<^verbatim>\<open>null\<close> used as a condition, and \<^verbatim>\<open>x || ''\<close>.\<close>

definition truthy :: "string option \<Rightarrow> bool" where
  "truthy x = (case x of None \<Rightarrow> False | Some v \<Rightarrow> v \<noteq> [])"

definition orEmpty :: "string option \<Rightarrow> string" where
  "orEmpty x = (case x of None \<Rightarrow> [] | Some v \<Rightarrow> v)"

subsection \<open>Characters\<close>

definition lowerAlpha :: "char \<Rightarrow> bool" where
  "lowerAlpha c = (c \<in> set ''abcdefghijklmnopqrstuvwxyz'')"

definition upperAlpha :: "char \<Rightarrow> bool" where
  "upperAlpha c = (c \<in> set ''ABCDEFGHIJKLMNOPQRSTUVWXYZ'')"

definition isDigit :: "char \<Rightarrow> bool" where
  "isDigit c = (c \<in> set ''0123456789'')"

definition toLowerChar :: "char \<Rightarrow> char" where
  "toLowerChar c =
     (case map_of (zip ''ABCDEFGHIJKLMNOPQRSTUVWXYZ'' ''abcdefghijklmnopqrstuvwxyz'') c of
        None \<Rightarrow> c
      | Some l \<Rightarrow> l)"

definition toLowerCase :: "string \<Rightarrow> string" where
  "toLowerCase s = map toLowerChar s"

text \<open>
  The printable ASCII characters other than the space (codes 33 to 126) without the
  backslash: the characters of the texts that the model covers.
\<close>

definition modelledChar :: "char \<Rightarrow> bool" where
  "modelledChar c =
     (lowerAlpha c \<or> upperAlpha c \<or> isDigit c
      \<or> c \<in> set ''!#$%&()*+,-./:;<=>?@[]^_{|}~'' \<or> c = CHR 0x22 \<or> c = CHR 0x27 \<or> c = CHR 0x60)"

text \<open>\<^verbatim>\<open>protocolPattern = /^([a-z0-9.+-]+:)/i\<close>\<close>

definition protocolChar :: "char \<Rightarrow> bool" where
  "protocolChar c = (lowerAlpha c \<or> upperAlpha c \<or> isDigit c \<or> c \<in> set ''.+-'')"

definition protocolPattern :: "string \<Rightarrow> string option" where
  "protocolPattern rest =
     (let p = takeWhile protocolChar rest in
      if p \<noteq> [] \<and> prefix '':'' (dropWhile protocolChar rest) then Some (p @ '':'') else None)"

text \<open>
  \<^verbatim>\<open>hostlessProtocol\<close>, \<^verbatim>\<open>unsafeProtocol\<close> and \<^verbatim>\<open>slashedProtocol\<close>, asked about a
  protocol that may be absent.
\<close>

definition hostlessProtocol :: "string option \<Rightarrow> bool" where
  "hostlessProtocol p = (p = Some ''javascript'' \<or> p = Some ''javascript:'')"

definition unsafeProtocol :: "string option \<Rightarrow> bool" where
  "unsafeProtocol p = (p = Some ''javascript'' \<or> p = Some ''javascript:'')"

text \<open>
  The table \<^verbatim>\<open>slashedProtocol\<close>, the protocols after which the two slashes are always
  written, is not the same in every release of the runtime, and the sources do not say
  which release runs them. The table is a parameter, \<open>slashed\<close>, of everything that reads
  it. Two tables that releases of the runtime have: the older one, and the one with
  \<^verbatim>\<open>ws\<close> and \<^verbatim>\<open>wss\<close> of the later releases.
\<close>

definition slashedProtocol :: "string list \<Rightarrow> string option \<Rightarrow> bool" where
  "slashedProtocol slashed p = (p \<in> Some ` set slashed)"

definition slashedProtocols :: "string list" where
  "slashedProtocols =
     [''http'', ''http:'', ''https'', ''https:'', ''ftp'', ''ftp:'',
      ''gopher'', ''gopher:'', ''file'', ''file:'']"

definition slashedProtocolsWs :: "string list" where
  "slashedProtocolsWs = slashedProtocols @ [''ws'', ''ws:'', ''wss'', ''wss:'']"

text \<open>
  \<^verbatim>\<open>simplePathPattern = /^(\/\/?(?!\/)[^?\s]*)(\?[^\s]*)?$/\<close> on a text without white
  space: the text begins with one or two slashes and not with three.
\<close>

definition simplePathPattern :: "string \<Rightarrow> bool" where
  "simplePathPattern rest = (prefix ''/'' rest \<and> \<not> prefix ''///'' rest)"

text \<open>\<^verbatim>\<open>hostPattern = /^\/\/[^@/]+@[^@/]+/\<close>\<close>

definition hostPattern :: "string \<Rightarrow> bool" where
  "hostPattern rest =
     (prefix ''//'' rest
      \<and> takeWhile (\<lambda>c. c \<noteq> CHR ''@'' \<and> c \<noteq> CHR ''/'') (drop 2 rest) \<noteq> []
      \<and> (case dropWhile (\<lambda>c. c \<noteq> CHR ''@'' \<and> c \<noteq> CHR ''/'') (drop 2 rest) of
            a # c # cs \<Rightarrow> a = CHR ''@'' \<and> c \<noteq> CHR ''@'' \<and> c \<noteq> CHR ''/''
          | _ \<Rightarrow> False))"

text \<open>
  The characters that end the host: those that are never part of a host name, and the three
  that begin the path, the query or the fragment.
\<close>

definition nonHostChar :: "char \<Rightarrow> bool" where
  "nonHostChar c = (c \<in> set ''%;<>^{|}'' \<or> c = CHR 0x22 \<or> c = CHR 0x27 \<or> c = CHR 0x60)"

definition hostEndingChar :: "char \<Rightarrow> bool" where
  "hostEndingChar c = (c \<in> set ''#/?'')"

definition inHost :: "char \<Rightarrow> bool" where
  "inHost c = (\<not> nonHostChar c \<and> \<not> hostEndingChar c)"

text \<open>
  \<^verbatim>\<open>parseHost\<close> with \<^verbatim>\<open>portPattern = /:[0-9]*$/\<close>: the last colon of the host, when only
  digits follow it, begins the port. The result is the host name and the port.
\<close>

definition portPattern :: "string \<Rightarrow> (string \<times> string) option" where
  "portPattern host' =
     (let digits = rev (takeWhile isDigit (rev host'));
          front = rev (dropWhile isDigit (rev host'))
      in if front \<noteq> [] \<and> last front = CHR '':'' then Some (butlast front, digits) else None)"

text \<open>The characters that \<^verbatim>\<open>getHostname\<close> accepts in a host name.\<close>

definition validHostChar :: "char \<Rightarrow> bool" where
  "validHostChar c = (lowerAlpha c \<or> upperAlpha c \<or> isDigit c \<or> c \<in> set ''.-+_'')"

text \<open>\<^verbatim>\<open>autoEscapeStr\<close>: the characters that are always written as escapes.\<close>

definition autoEscapeChar :: "char \<Rightarrow> string" where
  "autoEscapeChar c =
     (if c = CHR 0x22 then ''%22'' else if c = CHR 0x27 then ''%27''
      else if c = CHR ''<'' then ''%3C'' else if c = CHR ''>'' then ''%3E''
      else if c = CHR ''^'' then ''%5E'' else if c = CHR 0x60 then ''%60''
      else if c = CHR ''{'' then ''%7B'' else if c = CHR ''|'' then ''%7C''
      else if c = CHR ''}'' then ''%7D'' else [c])"

definition autoEscapeStr :: "string \<Rightarrow> string" where
  "autoEscapeStr rest = concat (map autoEscapeChar rest)"

subsection \<open>format\<close>

text \<open>
  \<^verbatim>\<open>encodeStr(auth, noEscapeAuth, hexTable)\<close>: the letters, the digits and
  \<^verbatim>\<open>! ' ( ) * - . : _ ~\<close> stay, every other code unit is written as the escapes of its
  UTF-8 bytes.
\<close>

definition hexDigit :: "nat \<Rightarrow> char" where
  "hexDigit n = ''0123456789ABCDEF'' ! n"

definition hexTable :: "nat \<Rightarrow> string" where
  "hexTable n = [CHR ''%'', hexDigit (n div 16), hexDigit (n mod 16)]"

definition noEscapeAuth :: "char \<Rightarrow> bool" where
  "noEscapeAuth c =
     (lowerAlpha c \<or> upperAlpha c \<or> isDigit c \<or> c \<in> set ''!()*-.:_~'' \<or> c = CHR 0x27)"

definition encodeAuthChar :: "char \<Rightarrow> string" where
  "encodeAuthChar c =
     (if noEscapeAuth c then [c]
      else if (of_char c :: nat) < 128 then hexTable (of_char c)
      else hexTable (192 + of_char c div 64) @ hexTable (128 + of_char c mod 64))"

definition encodeAuth :: "string \<Rightarrow> string" where
  "encodeAuth a = concat (map encodeAuthChar a)"

definition escapePathname :: "string \<Rightarrow> string" where
  "escapePathname p =
     concat (map (\<lambda>c. if c = CHR ''#'' then ''%23'' else if c = CHR ''?'' then ''%3F'' else [c]) p)"

definition escapeHash :: "string \<Rightarrow> string" where
  "escapeHash s = concat (map (\<lambda>c. if c = CHR ''#'' then ''%23'' else [c]) s)"

text \<open>
  \<^verbatim>\<open>
  Url.prototype.format = function format() {
    var auth = this.auth || '';
    if (auth) { auth = encodeStr(auth, noEscapeAuth, hexTable); auth += '@'; }
    var protocol = this.protocol || '';
    var pathname = this.pathname || '';
    var hash = this.hash || '';
    var host = '';
    var query = '';
    if (this.host) {
      host = auth + this.host;
    } else if (this.hostname) {
      host = auth + (this.hostname.indexOf(':') === -1 ?
        this.hostname : '[' + this.hostname + ']');
      if (this.port) { host += ':' + this.port; }
    }
    if (this.query !== null && typeof this.query === 'object') { ... }
    var search = this.search || (query && ('?' + query)) || '';
    if (protocol && protocol.charCodeAt(protocol.length - 1) !== 58/* : */)
      protocol += ':';
    ... every # of pathname becomes %23, every ? becomes %3F ...
    if (this.slashes || slashedProtocol.has(protocol)) {
      if (this.slashes || host) {
        if (pathname && pathname.charCodeAt(0) !== CHAR_FORWARD_SLASH)
          pathname = '/' + pathname;
        host = '//' + host;
      } else if (protocol.length >= 4 && ... protocol begins with file ...) {
        host = '//';
      }
    }
    search = search.replace(/#/g, '%23');
    if (hash && hash.charCodeAt(0) !== CHAR_HASH) hash = '#' + hash;
    if (search && search.charCodeAt(0) !== CHAR_QUESTION_MARK) search = '?' + search;
    return protocol + host + pathname + search + hash;
  };
  \<close>
  The \<^verbatim>\<open>query\<close> of the model is a text or \<^verbatim>\<open>null\<close>, never an object.
\<close>

definition format :: "string list \<Rightarrow> Url \<Rightarrow> string" where
  "format slashed u =
     (let auth0 = orEmpty (auth u);
          auth1 = (if auth0 \<noteq> [] then encodeAuth auth0 @ ''@'' else []);
          protocol0 = orEmpty (protocol u);
          pathname0 = orEmpty (pathname u);
          hash0 = orEmpty (hash u);
          host0 = (if truthy (host u) then auth1 @ orEmpty (host u)
                   else if truthy (hostname u) then
                     auth1
                     @ (if CHR '':'' \<notin> set (orEmpty (hostname u)) then orEmpty (hostname u)
                        else ''['' @ orEmpty (hostname u) @ '']'')
                     @ (if truthy (port u) then '':'' @ orEmpty (port u) else [])
                   else []);
          search0 = orEmpty (search u);
          protocol1 = (if protocol0 \<noteq> [] \<and> last protocol0 \<noteq> CHR '':''
                       then protocol0 @ '':'' else protocol0);
          pathname1 = escapePathname pathname0;
          pathname2 = (if (slashes u \<or> slashedProtocol slashed (Some protocol1))
                          \<and> (slashes u \<or> host0 \<noteq> [])
                          \<and> pathname1 \<noteq> [] \<and> \<not> prefix ''/'' pathname1
                       then ''/'' @ pathname1 else pathname1);
          host1 = (if slashes u \<or> slashedProtocol slashed (Some protocol1) then
                     if slashes u \<or> host0 \<noteq> [] then ''//'' @ host0
                     else if prefix ''file'' protocol1 then ''//''
                     else host0
                   else host0);
          search1 = escapeHash search0;
          hash1 = (if hash0 \<noteq> [] \<and> \<not> prefix ''#'' hash0 then ''#'' @ hash0 else hash0);
          search2 = (if search1 \<noteq> [] \<and> \<not> prefix ''?'' search1 then ''?'' @ search1 else search1)
      in protocol1 @ host1 @ pathname2 @ search2 @ hash1)"

subsection \<open>parse\<close>

text \<open>
  In outline, \<^verbatim>\<open>Url.prototype.parse(url)\<close> trims the text and turns the backslashes
  before the first \<^verbatim>\<open>?\<close> or \<^verbatim>\<open>#\<close> into slashes (neither happens to a text of the
  model), and then reads the rest:
  \<^verbatim>\<open>
  if (!slashesDenoteHost && !hasHash) {
    const simplePath = simplePathPattern.exec(rest);
    if (simplePath) {
      this.path = rest;
      this.href = rest;
      this.pathname = simplePath[1];
      if (simplePath[2]) {
        this.search = simplePath[2];
        this.query = this.search.slice(1);
      }
      return this;
    }
  }
  var proto = protocolPattern.exec(rest);
  var lowerProto;
  if (proto) {
    proto = proto[0];
    lowerProto = proto.toLowerCase();
    this.protocol = lowerProto;
    rest = rest.slice(proto.length);
  }
  var slashes;
  if (slashesDenoteHost || proto || hostPattern.test(rest)) {
    slashes = rest.charCodeAt(0) === CHAR_FORWARD_SLASH &&
              rest.charCodeAt(1) === CHAR_FORWARD_SLASH;
    if (slashes && !(proto && hostlessProtocol.has(lowerProto))) {
      rest = rest.slice(2);
      this.slashes = true;
    }
  }
  if (!hostlessProtocol.has(lowerProto) &&
      (slashes || (proto && !slashedProtocol.has(proto)))) {
    ... find where the host ends and whether an @ comes before that ...
    if (atSign !== -1) { this.auth = decodeURIComponent(rest.slice(0, atSign)); ... }
    if (nonHost === -1) { this.host = rest.slice(start); rest = ''; }
    else { this.host = rest.slice(start, nonHost); rest = rest.slice(nonHost); }
    this.parseHost();
    if (typeof this.hostname !== 'string') this.hostname = '';
    var hostname = this.hostname;
    var ipv6Hostname = hostname.charCodeAt(0) === CHAR_LEFT_SQUARE_BRACKET &&
                       hostname.charCodeAt(hostname.length - 1) === CHAR_RIGHT_SQUARE_BRACKET;
    if (!ipv6Hostname) { rest = getHostname(this, rest, hostname); }
    if (this.hostname.length > hostnameMaxLen) { this.hostname = ''; }
    else { this.hostname = this.hostname.toLowerCase(); }
    if (!ipv6Hostname) { this.hostname = toASCII(this.hostname, true); }
    var p = this.port ? ':' + this.port : '';
    var h = this.hostname || '';
    this.host = h + p;
    if (ipv6Hostname) {
      this.hostname = this.hostname.slice(1, -1);
      if (rest[0] !== '/') { rest = '/' + rest; }
    }
  }
  if (!unsafeProtocol.has(lowerProto)) { rest = autoEscapeStr(rest); }
  ... this.hash from the first #, this.search and this.query from the first ? before it,
      this.pathname what stands before both, when it is not empty ...
  if (slashedProtocol.has(lowerProto) && this.hostname && !this.pathname) {
    this.pathname = '/';
  }
  if (this.pathname || this.search) {
    this.path = (this.pathname || '') + (this.search || '');
  }
  this.href = this.format();
  return this;
  \<close>
\<close>

text \<open>
  The host part of \<^verbatim>\<open>Url.prototype.parse\<close>, entered when the address has a host: the
  host runs up to the first character that cannot be in it; \<^verbatim>\<open>parseHost\<close> takes the port
  off; unless the name is an IPv6 literal in brackets, \<^verbatim>\<open>getHostname\<close> cuts the name at
  its first invalid character and gives the cut part back to the rest behind a slash; a
  name longer than 255 becomes empty, any other is put in lower case. The result is
  \<^verbatim>\<open>host\<close>, \<^verbatim>\<open>port\<close> and \<^verbatim>\<open>hostname\<close>, and the rest of the address, or
  \<open>None\<close> when an \<^verbatim>\<open>@\<close> comes before the path.
\<close>

definition parseHostPart :: "string \<Rightarrow> ((string \<times> string option \<times> string) \<times> string) option" where
  "parseHostPart rest =
     (if CHR ''@'' \<in> set (takeWhile (\<lambda>c. \<not> hostEndingChar c) rest) then None
      else
        let host0 = takeWhile inHost rest;
            rest1 = dropWhile inHost rest;
            port0 = (case portPattern host0 of
                       None \<Rightarrow> None
                     | Some (h, digits) \<Rightarrow> if digits = [] then None else Some digits);
            hostname0 = (case portPattern host0 of None \<Rightarrow> host0 | Some (h, digits) \<Rightarrow> h);
            ipv6Hostname = (prefix ''['' hostname0 \<and> suffix '']'' hostname0);
            hostname1 = (if ipv6Hostname then hostname0 else takeWhile validHostChar hostname0);
            rest2 = (if ipv6Hostname \<or> dropWhile validHostChar hostname0 = [] then rest1
                     else ''/'' @ dropWhile validHostChar hostname0 @ rest1);
            hostname2 = (if length hostname1 > 255 then [] else toLowerCase hostname1);
            host1 = hostname2 @ (case port0 of None \<Rightarrow> [] | Some p \<Rightarrow> '':'' @ p);
            hostname3 = (if ipv6Hostname then butlast (tl hostname2) else hostname2);
            rest3 = (if ipv6Hostname \<and> \<not> prefix ''/'' rest2 then ''/'' @ rest2 else rest2)
        in Some ((host1, port0, hostname3), rest3))"

text \<open>
  The end of \<^verbatim>\<open>Url.prototype.parse\<close>: the fragment begins at the first \<^verbatim>\<open>#\<close>, the
  query at the first \<^verbatim>\<open>?\<close> before it, and what stands before both is the path name.
\<close>

definition splitRest :: "string \<Rightarrow> string option \<times> string option \<times> string option" where
  "splitRest rest =
     (let beforeHash = takeWhile (\<lambda>c. c \<noteq> CHR ''#'') rest;
          hash' = dropWhile (\<lambda>c. c \<noteq> CHR ''#'') rest;
          pathname' = takeWhile (\<lambda>c. c \<noteq> CHR ''?'') beforeHash;
          search' = dropWhile (\<lambda>c. c \<noteq> CHR ''?'') beforeHash
      in (if pathname' = [] then None else Some pathname',
          if search' = [] then None else Some search',
          if hash' = [] then None else Some hash'))"

definition withPath :: "Url \<Rightarrow> Url" where
  "withPath u =
     (if truthy (pathname u) \<or> truthy (search u)
      then u\<lparr>path := Some (orEmpty (pathname u) @ orEmpty (search u))\<rparr> else u)"

definition withHref :: "string list \<Rightarrow> Url \<Rightarrow> Url" where
  "withHref slashed u = u\<lparr>href := Some (format slashed u)\<rparr>"

text \<open>
  What \<^verbatim>\<open>Url.prototype.parse\<close> does once the protocol and the host are read, given the
  protocol in lower case, whether \<^verbatim>\<open>this.slashes\<close> was set, the fields of the host when
  there is one, and the rest of the address: the escapes (left out for a
  \<^verbatim>\<open>javascript:\<close> address); the fragment, the query and the path name; the path name
  \<^verbatim>\<open>/\<close> for an address with a host name, a protocol that always has the slashes and no
  path name; \<^verbatim>\<open>path\<close> and \<^verbatim>\<open>href\<close>.
\<close>

definition finishParse ::
  "string list \<Rightarrow> string option \<Rightarrow> bool \<Rightarrow> (string \<times> string option \<times> string) option \<Rightarrow> string \<Rightarrow> Url" where
  "finishParse slashed lowerProto slashesSet hostFields rest3 =
     (let rest4 = (if unsafeProtocol lowerProto then rest3 else autoEscapeStr rest3);
          (pathname', search', hash') = splitRest rest4;
          u0 = emptyUrl
            \<lparr> protocol := lowerProto, slashes := slashesSet,
              host := (case hostFields of None \<Rightarrow> None | Some (h, p, n) \<Rightarrow> Some h),
              port := (case hostFields of None \<Rightarrow> None | Some (h, p, n) \<Rightarrow> p),
              hostname := (case hostFields of None \<Rightarrow> None | Some (h, p, n) \<Rightarrow> Some n),
              hash := hash', search := search', query := map_option tl search',
              pathname := pathname' \<rparr>;
          u1 = (if slashedProtocol slashed lowerProto \<and> truthy (hostname u0) \<and> \<not> truthy (pathname u0)
                then u0\<lparr>pathname := Some ''/''\<rparr> else u0)
      in withHref slashed (withPath u1))"

text \<open>
  The middle of \<^verbatim>\<open>Url.prototype.parse\<close>, given what \<^verbatim>\<open>protocolPattern\<close> found: the
  two slashes after the protocol are taken off and \<^verbatim>\<open>this.slashes\<close> is set, unless the
  protocol never has a host; the host is read, unless the protocol never has one, when the
  slashes are there or the protocol, as written, is not one of those that always have them.
  An address without a protocol has a host only with user information, which is outside
  the model.
\<close>

definition parseWithProtocol :: "string list \<Rightarrow> string option \<Rightarrow> string \<Rightarrow> Url option" where
  "parseWithProtocol slashed proto url =
     (let lowerProto = map_option toLowerCase proto;
          rest1 = drop (length (orEmpty proto)) url
      in if proto = None \<and> hostPattern rest1 then None
         else
           let slashes' = (proto \<noteq> None \<and> prefix ''//'' rest1);
               slashesSet = (slashes' \<and> \<not> hostlessProtocol lowerProto);
               rest2 = (if slashesSet then drop 2 rest1 else rest1);
               hasHost = (\<not> hostlessProtocol lowerProto
                          \<and> (slashes' \<or> (proto \<noteq> None \<and> \<not> slashedProtocol slashed proto)))
           in if hasHost then
                (case parseHostPart rest2 of
                   None \<Rightarrow> None
                 | Some (hostFields, rest3) \<Rightarrow>
                     Some (finishParse slashed lowerProto slashesSet (Some hostFields) rest3))
              else Some (finishParse slashed lowerProto slashesSet None rest2))"

text \<open>
  The fast path of \<^verbatim>\<open>Url.prototype.parse\<close> for a text that is only a path: the query
  begins at the first \<^verbatim>\<open>?\<close>, nothing is escaped.
\<close>

definition parseSimplePath :: "string \<Rightarrow> Url" where
  "parseSimplePath rest =
     emptyUrl
       \<lparr> search := (if dropWhile (\<lambda>c. c \<noteq> CHR ''?'') rest = [] then None
                     else Some (dropWhile (\<lambda>c. c \<noteq> CHR ''?'') rest)),
         query := (if dropWhile (\<lambda>c. c \<noteq> CHR ''?'') rest = [] then None
                    else Some (tl (dropWhile (\<lambda>c. c \<noteq> CHR ''?'') rest))),
         pathname := Some (takeWhile (\<lambda>c. c \<noteq> CHR ''?'') rest),
         path := Some rest, href := Some rest \<rparr>"

text \<open>
  \<^verbatim>\<open>url.parse(url)\<close>: the fast path is tried when the text has no \<^verbatim>\<open>#\<close>; otherwise
  the protocol is looked for and the address is read part by part.
\<close>

definition parse :: "string list \<Rightarrow> string \<Rightarrow> Url option" where
  "parse slashed url =
     (if \<not> list_all modelledChar url then None
      else if CHR ''#'' \<notin> set url \<and> simplePathPattern url then Some (parseSimplePath url)
      else parseWithProtocol slashed (protocolPattern url) url)"

subsection \<open>Plain addresses\<close>

text \<open>
  The characters that \<open>parse\<close> leaves as they are when they stand in a path: those of
  the model without \<^verbatim>\<open>#\<close> and \<^verbatim>\<open>?\<close> and without the ones that are written as
  escapes.
\<close>

definition pathChar :: "char \<Rightarrow> bool" where
  "pathChar c =
     (lowerAlpha c \<or> upperAlpha c \<or> isDigit c \<or> c \<in> set ''!$%&()*+,-./:;=@[]_~'')"

text \<open>
  The characters that \<open>parse\<close> leaves as they are after the host: those above, and the
  \<^verbatim>\<open>?\<close> and the \<^verbatim>\<open>#\<close> that begin the query and the fragment.
\<close>

definition tailChar :: "char \<Rightarrow> bool" where
  "tailChar c = (pathChar c \<or> c = CHR ''?'' \<or> c = CHR ''#'')"


subsection \<open>getValidUrl\<close>

text \<open>
  \<^verbatim>\<open>
  private static getValidUrl(configURL: string): string {
      const parsedUrl = parse(configURL);
      if (!parsedUrl.protocol || parsedUrl.protocol !== 'https') {
          parsedUrl.protocol = 'https:';
          parsedUrl.slashes = true;
      }
      return format(parsedUrl);
  }
  \<close>
  The result is \<open>None\<close> where \<open>parse\<close> is.
\<close>

definition forceHttps :: "Url \<Rightarrow> Url" where
  "forceHttps parsedUrl =
     (if \<not> truthy (protocol parsedUrl) \<or> protocol parsedUrl \<noteq> Some ''https''
      then parsedUrl\<lparr>protocol := Some ''https:'', slashes := True\<rparr>
      else parsedUrl)"

definition getValidUrl :: "string list \<Rightarrow> string \<Rightarrow> string option" where
  "getValidUrl slashed configURL =
     (case parse slashed configURL of
        None \<Rightarrow> None
      | Some parsedUrl \<Rightarrow> Some (format slashed (forceHttps parsedUrl)))"


subsection \<open>The address that createApplication loads\<close>

text \<open>
  \<^verbatim>\<open>
  const urlFromCmd = getCommandLineArgs(process.argv, '--url=', false);
  this.url = urlFromCmd && urlFromCmd.substr(6) || WindowHandler.getValidUrl(this.globalConfig.url);
  \<close>
  \<^verbatim>\<open>getCommandLineArgs\<close> is imported from common/utils, which is not among the sources;
  what it returned is a parameter: the token of the command line that matches
  \<^verbatim>\<open>--url=\<close>, or \<^verbatim>\<open>null\<close>. An empty text counts as false, so that
  \<^verbatim>\<open>a && b || c\<close> is \<open>c\<close> when \<open>a\<close> or \<open>b\<close> is empty.
\<close>

definition resolveUrl :: "string list \<Rightarrow> string option \<Rightarrow> string \<Rightarrow> string option" where
  "resolveUrl slashed urlFromCmd globalConfigUrl =
     (if truthy urlFromCmd \<and> drop 6 (orEmpty urlFromCmd) \<noteq> []
      then Some (drop 6 (orEmpty urlFromCmd))
      else getValidUrl slashed globalConfigUrl)"


section \<open>Properties of the registry operations\<close>

lemmas model_defs = initialState_def createBasicAuthWindow_def createScreenPickerWindow_def
  createComponentWindow_def newBrowserWindow_def createApplication_def
  winOn_def winOnce_def ipcOnce_def ipcRemoveListener_def removeListener_def
  ipcEmit_def winEmit_def hostClose_def browserWindowClose_def closeBasicAuth_def login_def
  sourceSelected_def perform_def windowExists_def addWindow_def removeWindow_def
  numberToString_def mainWindowClose_def destroyAllWindow_def toPropertyKey_def digit_def
  natToString.simps setProperty_def arrayIndex_def Let_def

lemma windows_removeWindow [simp]:
  "windows (removeWindow key s) = AList.delete key (windows s)"
  by (simp add: removeWindow_def)

lemma map_of_setProperty: "map_of (setProperty key v ps) = (map_of ps)(key \<mapsto> v)"
proof (cases "map_of ps key")
  case (Some w)
  then show ?thesis by (simp add: setProperty_def AList.update_conv')
next
  case None
  have ps: "map_of (xs @ [(key, v)] @ ys) = (map_of (xs @ ys))(key \<mapsto> v)"
    if "map_of (xs @ ys) key = None" for xs ys
    using that by (auto simp: map_add_def fun_eq_iff split: option.splits)
  show ?thesis
  proof (cases "arrayIndex key")
    case n: None
    from ps [of ps "[]"] None n show ?thesis by (simp add: setProperty_def)
  next
    case (Some n)
    from ps [of "takeWhile (indexBelow n) ps" "dropWhile (indexBelow n) ps"] None Some
    show ?thesis by (simp add: setProperty_def)
  qed
qed

lemma getProperty_addWindow:
  "getProperty member key (addWindow key window s) = Window window"
proof (cases "key = ''__proto__'' \<and> map_of (windows s) key = None")
  case True
  then have k: "key = ''__proto__''" and n: "map_of (windows s) ''__proto__'' = None"
    by blast+
  show ?thesis unfolding k by (simp add: getProperty_def addWindow_def n)
next
  case False
  then have "addWindow key window s = s\<lparr>windows := setProperty key window (windows s)\<rparr>"
    unfolding addWindow_def by (simp only: if_False)
  then show ?thesis by (simp add: getProperty_def map_of_setProperty)
qed

lemma getProperty_removed:
  assumes "key \<noteq> ''__proto__''" "windowsPrototype s = ObjectPrototype"
  shows "getProperty member key (removeWindow key (addWindow key window s))
         = (if key \<in> set objectPrototypeNames then Truthy else Undefined)"
  using assms
  by (auto simp: getProperty_def addWindow_def removeWindow_def AList.delete_conv')

lemma hasWindow_true:
  "(hasWindow member key window s = Boolean True) = (getProperty member key s = Window window)"
  by (auto simp: hasWindow_def falsy_def Let_def)

text \<open>
  C6, as amended. \<^verbatim>\<open>hasWindow(k, h)\<close> is \<^verbatim>\<open>true\<close> exactly when \<^verbatim>\<open>this.windows[k]\<close>,
  the property \<open>k\<close> of the object's own or else what it inherits at \<open>k\<close>, is \<open>h\<close>
  itself. In a registry whose prototype is \<^verbatim>\<open>Object.prototype\<close>: for a key other than
  \<^verbatim>\<open>__proto__\<close> it is not \<^verbatim>\<open>true\<close> after \<^verbatim>\<open>addWindow(k, h)\<close> and
  \<^verbatim>\<open>removeWindow(k)\<close>, but \<^verbatim>\<open>false\<close> when \<open>k\<close> names a function of
  \<^verbatim>\<open>Object.prototype\<close> and \<^verbatim>\<open>undefined\<close> otherwise; and storing another window under
  \<open>k\<close>, for every key, makes it \<^verbatim>\<open>false\<close> for every window that is not the one stored
  and \<^verbatim>\<open>true\<close> for the one stored.
\<close>

theorem hasWindow_reference_identity:
  "(hasWindow member k h s = Boolean True) = (getProperty member k s = Window h)
   \<and> (windowsPrototype s = ObjectPrototype \<longrightarrow>
        (k \<noteq> ''__proto__'' \<longrightarrow>
           hasWindow member k h (removeWindow k (addWindow k h s))
             = (if k \<in> set objectPrototypeNames then Boolean False else Undefined))
        \<and> (hNew \<noteq> hOld \<longrightarrow>
             hasWindow member k hOld (addWindow k hNew (removeWindow k (addWindow k hOld s)))
               = Boolean False
             \<and> hasWindow member k hOld (addWindow k hNew s) = Boolean False
             \<and> hasWindow member k hNew (addWindow k hNew s) = Boolean True))"
proof -
  have stored: "hasWindow member k w (addWindow k hNew s') = Boolean (w = hNew)" for w s'
    by (simp add: hasWindow_def getProperty_addWindow falsy_def)
  have removed: "hasWindow member k h (removeWindow k (addWindow k h s))
          = (if k \<in> set objectPrototypeNames then Boolean False else Undefined)"
    if "k \<noteq> ''__proto__''" "windowsPrototype s = ObjectPrototype"
    by (simp add: hasWindow_def getProperty_removed [OF that] falsy_def)
  from stored removed show ?thesis by (simp add: hasWindow_true)
qed

text \<open>
  Under the key of a screen-sharing indicator, and under \<^verbatim>\<open>toString\<close>.
\<close>

theorem hasWindow_reference_identity_witness:
  "(2::nat) \<noteq> 1
   \<and> ''stream-7'' \<noteq> ''__proto__''
   \<and> windowsPrototype (initialState False False) = ObjectPrototype
   \<and> hasWindow (\<lambda>w key. Undefined) ''stream-7'' 1
         (addWindow ''stream-7'' 1 (initialState False False)) = Boolean True
   \<and> hasWindow (\<lambda>w key. Undefined) ''stream-7'' 1
         (removeWindow ''stream-7'' (addWindow ''stream-7'' 1 (initialState False False)))
       = Undefined
   \<and> hasWindow (\<lambda>w key. Undefined) ''toString'' 1
         (removeWindow ''toString'' (addWindow ''toString'' 1 (initialState False False)))
       = Boolean False
   \<and> hasWindow (\<lambda>w key. Undefined) ''stream-7'' 1
         (addWindow ''stream-7'' 2
           (removeWindow ''stream-7'' (addWindow ''stream-7'' 1 (initialState False False))))
       = Boolean False
   \<and> hasWindow (\<lambda>w key. Undefined) ''stream-7'' 2
         (addWindow ''stream-7'' 2
           (removeWindow ''stream-7'' (addWindow ''stream-7'' 1 (initialState False False))))
       = Boolean True"
proof -
  let ?m = "\<lambda>(w::handle) (key::string). Undefined"
  let ?s = "initialState False False"
  have p: "windowsPrototype ?s = ObjectPrototype" by (simp add: initialState_def)
  have n: "''stream-7'' \<notin> set objectPrototypeNames" "''toString'' \<in> set objectPrototypeNames"
    by (simp_all add: objectPrototypeNames_def)
  from hasWindow_reference_identity [of ?m "''stream-7''" 1 ?s 2 1] p n
  have a: "hasWindow ?m ''stream-7'' 1 (removeWindow ''stream-7'' (addWindow ''stream-7'' 1 ?s))
             = Undefined
     \<and> hasWindow ?m ''stream-7'' 1
         (addWindow ''stream-7'' 2 (removeWindow ''stream-7'' (addWindow ''stream-7'' 1 ?s)))
       = Boolean False"
    by simp
  have p': "windowsPrototype (removeWindow ''stream-7'' (addWindow ''stream-7'' 1 ?s))
      = ObjectPrototype"
    by (simp add: removeWindow_def addWindow_def initialState_def)
  from hasWindow_reference_identity [of ?m "''stream-7''" 1 ?s 1 2] p
  have b: "hasWindow ?m ''stream-7'' 1 (addWindow ''stream-7'' 1 ?s) = Boolean True"
    by simp
  from hasWindow_reference_identity
         [of ?m "''stream-7''" 2 "removeWindow ''stream-7'' (addWindow ''stream-7'' 1 ?s)" 2 1] p'
  have c: "hasWindow ?m ''stream-7'' 2
         (addWindow ''stream-7'' 2 (removeWindow ''stream-7'' (addWindow ''stream-7'' 1 ?s)))
       = Boolean True"
    by simp
  from hasWindow_reference_identity [of ?m "''toString''" 1 ?s 2 1] p n
  have d: "hasWindow ?m ''toString'' 1 (removeWindow ''toString'' (addWindow ''toString'' 1 ?s))
             = Boolean False"
    by simp
  from a b c d p show ?thesis by simp
qed

text \<open>
  C6 as stated fails at the key \<^verbatim>\<open>__proto__\<close>: \<^verbatim>\<open>addWindow\<close> makes the window the
  prototype of the registry, \<^verbatim>\<open>removeWindow\<close> finds no property to delete, and
  \<^verbatim>\<open>hasWindow\<close> is still \<^verbatim>\<open>true\<close>, whatever the members of the window are.
\<close>

theorem hasWindow_claim_counterexample:
  "\<forall>member.
     hasWindow member ''__proto__'' 1
       (removeWindow ''__proto__'' (addWindow ''__proto__'' 1 (initialState False False)))
     = Boolean True"
  by (simp add: hasWindow_def getProperty_def addWindow_def removeWindow_def initialState_def
        falsy_def)

subsection \<open>destroyAllWindow\<close>

text \<open>
  In the registry the loop can only delete the entry named \<^verbatim>\<open>[object Object]\<close>: every
  other entry is still there afterwards.
\<close>

lemma destroyLoop_keeps:
  "k \<noteq> ''[object Object]'' \<Longrightarrow> map_of (windows (destroyLoop ks s)) k = map_of (windows s) k"
  by (induction ks arbitrary: s) (auto simp: toPropertyKey_def split: option.splits)

lemma destroyAllWindow_keeps:
  "k \<noteq> ''[object Object]'' \<Longrightarrow>
     map_of (windows (destroyAllWindow s)) k = map_of (windows s) k"
  by (simp add: destroyAllWindow_def destroyLoop_keeps)

text \<open>
  C1. The claim is that the registry is empty after \<^verbatim>\<open>destroyAllWindow()\<close>. On the
  state right after \<^verbatim>\<open>createApplication\<close>, whose registry holds the main window under
  its key, \<^verbatim>\<open>destroyAllWindow\<close> clears the main-window reference and leaves the entry
  where it was.
\<close>

theorem destroyAllWindow_leaves_entry:
  "windows (run [CreateApplication ''main-guid''] (initialState False False))
     = [(''main-guid'', 1)]
   \<and> windows (destroyAllWindow (run [CreateApplication ''main-guid''] (initialState False False)))
     = [(''main-guid'', 1)]
   \<and> mainWindow (destroyAllWindow (run [CreateApplication ''main-guid''] (initialState False False)))
     = None"
  by (simp add: model_defs)

section \<open>Properties of the listeners\<close>

subsection \<open>The basic-auth dialog\<close>

text \<open>
  \<^verbatim>\<open>closeBasicAuth\<close> never closes a dialog that exists: the set of existing windows is
  the same afterwards, and a slot that holds an existing dialog still holds it.
\<close>

lemma closeBasicAuth_existing:
  "alive (closeBasicAuth d b s) = alive s
   \<and> (basicAuthWindow s = Some w \<and> windowExists w s
        \<longrightarrow> basicAuthWindow (closeBasicAuth d b s) = Some w
            \<and> ipcMain (closeBasicAuth d b s) = ipcMain s)"
  by (auto simp: closeBasicAuth_def browserWindowClose_def perform_def windowExists_def Let_def
           split: option.splits)

text \<open>
  C2. The claim is that exactly one of the two callbacks of a dialog fires. A dialog is
  opened; its renderer sends \<^verbatim>\<open>basic-auth-closed\<close>, which calls \<^verbatim>\<open>clearSettings\<close> and
  leaves the dialog open with its \<^verbatim>\<open>basic-auth-login\<close> listener in place; then it sends
  \<^verbatim>\<open>basic-auth-login\<close>, which calls \<^verbatim>\<open>callback\<close>. Both callbacks of the one dialog have
  fired, and the dialog still exists.
\<close>

theorem basicAuth_cancel_then_submit:
  "effects (run [CreateBasicAuthWindow,
                 Message ''basic-auth-closed'' NoPayload,
                 Message ''basic-auth-login'' (Credentials ''user'' ''secret'')]
              (initialState False False))
     = [ClearSettings 1, Callback 1 ''user'' ''secret'']
   \<and> alive (run [CreateBasicAuthWindow,
                 Message ''basic-auth-closed'' NoPayload,
                 Message ''basic-auth-login'' (Credentials ''user'' ''secret'')]
              (initialState False False)) = {1}"
  by (simp add: model_defs)

text \<open>
  C3. The claim is that \<^verbatim>\<open>close()\<close> is only called on a window that still exists. Two
  dialogs are opened, so the slot holds the second; the user closes the second, which
  removes its listeners and destroys it; then the renderer of the first sends
  \<^verbatim>\<open>basic-auth-closed\<close>. The closure of the first dialog finds the slot holding a window
  that no longer exists and calls \<^verbatim>\<open>close()\<close> on it.
\<close>

theorem closeBasicAuth_closes_destroyed_window:
  "alive (run [CreateBasicAuthWindow, CreateBasicAuthWindow, UserCloses 2]
            (initialState False False)) = {1}
   \<and> basicAuthWindow (run [CreateBasicAuthWindow, CreateBasicAuthWindow, UserCloses 2]
            (initialState False False)) = Some 2
   \<and> effects (run [CreateBasicAuthWindow, CreateBasicAuthWindow, UserCloses 2,
                   Message ''basic-auth-closed'' NoPayload]
            (initialState False False))
     = [ClearSettings 1, ObjectDestroyed 2 ''close'']"
  by (simp add: model_defs)

subsection \<open>The screen picker\<close>

text \<open>
  C4. The claim is that after a second \<^verbatim>\<open>createScreenPickerWindow\<close> one picker exists
  and the \<^verbatim>\<open>screen-source-selected\<close> listener of the first never fires. A picker is
  opened for requester 10 with request 1 and, while it is open, another for requester 20
  with request 2. One picker exists then, the second. When a source is selected, the
  listener of the first picker fires as well and answers requester 10.
\<close>

theorem screenPicker_first_listener_fires:
  "livePickers (run [CreateScreenPickerWindow 10 1 ''guid-1'',
                     CreateScreenPickerWindow 20 2 ''guid-2'']
                  (initialState False False)) = {2}
   \<and> effects (run [CreateScreenPickerWindow 10 1 ''guid-1'',
                   CreateScreenPickerWindow 20 2 ''guid-2'',
                   Message ''screen-source-selected'' (Source ''screen:0:0'')]
                (initialState False False))
     = [Send 10 ''start-share1'' ''screen:0:0'', Send 20 ''start-share2'' ''screen:0:0'']"
  by (simp add: model_defs livePickers_def)

subsection \<open>The close handler of the main window\<close>

lemma mainWindowClose_quit:
  "mainWindow s = Some w \<Longrightarrow> windowExists w s \<Longrightarrow> willQuitApp s
   \<Longrightarrow> mainWindowClose s = destroyAllWindow s"
  by (simp add: mainWindowClose_def)

lemma mainWindowClose_minimize:
  "mainWindow s = Some w \<Longrightarrow> windowExists w s \<Longrightarrow> \<not> willQuitApp s \<Longrightarrow> minimizeOnClose s
   \<Longrightarrow> mainWindowClose s =
         s\<lparr>defaultPrevented := True,
           effects := effects s @ [PreventDefault, if isMac s then Hide w else Minimize w]\<rparr>"
  by (simp add: mainWindowClose_def perform_def)

lemma mainWindowClose_terminate:
  "mainWindow s = Some w \<Longrightarrow> windowExists w s \<Longrightarrow> \<not> willQuitApp s \<Longrightarrow> \<not> minimizeOnClose s
   \<Longrightarrow> mainWindowClose s = s\<lparr>effects := effects s @ [AppQuit]\<rparr>"
  by (simp add: mainWindowClose_def perform_def)

text \<open>
  When a quit was requested the handler is \<^verbatim>\<open>destroyAllWindow\<close>, so every entry of the
  registry under a key other than \<^verbatim>\<open>[object Object]\<close> outlives the close.
\<close>

lemma mainWindowClose_quit_keeps:
  assumes "mainWindow s = Some w" "windowExists w s" "willQuitApp s"
    and "k \<noteq> ''[object Object]''"
  shows "map_of (windows (mainWindowClose s)) k = map_of (windows s) k"
  using assms by (simp add: mainWindowClose_quit destroyAllWindow_keeps)

text \<open>
  C7. The claim is that on a close of the main window after a quit was requested all
  tracked windows are torn down and the state is cleared. The application is started, a
  quit is requested, and the user closes the main window: the handler runs
  \<^verbatim>\<open>destroyAllWindow\<close>, the main-window reference is cleared and the window is destroyed,
  and the registry still holds the entry of the main window, now a window that no longer
  exists.
\<close>

theorem mainWindowClose_quit_leaves_entry:
  "windows (run [CreateApplication ''main-guid'', SetWillQuitApp True, UserCloses 1]
             (initialState False False)) = [(''main-guid'', 1)]
   \<and> mainWindow (run [CreateApplication ''main-guid'', SetWillQuitApp True, UserCloses 1]
             (initialState False False)) = None
   \<and> alive (run [CreateApplication ''main-guid'', SetWillQuitApp True, UserCloses 1]
             (initialState False False)) = {}"
  by (simp add: model_defs)

section \<open>Properties of the screen-sharing indicator\<close>

lemma stringIncludes_iff: "stringIncludes s t = (\<exists>ps ss. s = ps @ t @ ss)"
proof (induction s)
  case Nil
  then show ?case by auto
next
  case (Cons c cs)
  show ?case
  proof
    assume "stringIncludes (c # cs) t"
    then consider "prefix t (c # cs)" | "stringIncludes cs t" by auto
    then show "\<exists>ps ss. c # cs = ps @ t @ ss"
    proof cases
      case 1
      then obtain ss where "c # cs = t @ ss" by (auto simp: prefix_def)
      then have "c # cs = [] @ t @ ss" by simp
      then show ?thesis by blast
    next
      case 2
      with Cons obtain ps ss where "cs = ps @ t @ ss" by auto
      then have "c # cs = (c # ps) @ t @ ss" by simp
      then show ?thesis by blast
    qed
  next
    assume "\<exists>ps ss. c # cs = ps @ t @ ss"
    then obtain ps ss where eq: "c # cs = ps @ t @ ss" by auto
    show "stringIncludes (c # cs) t"
    proof (cases ps)
      case Nil
      with eq have "prefix t (c # cs)" by (auto simp: prefix_def)
      then show ?thesis by simp
    next
      case (Cons p ps')
      with eq have "cs = ps' @ t @ ss" by simp
      with Cons.IH show ?thesis by auto
    qed
  qed
qed

lemma jsRound_half: "jsRound (of_int n / 2) = (n + 1) div 2"
proof -
  have "(of_int n / 2 + 1 / 2 :: rat) = of_int (n + 1) / of_int 2" by (simp add: add_divide_distrib)
  then show ?thesis unfolding jsRound_def by (simp only: floor_divide_of_int_eq)
qed

lemma indicatorScreen_fallback:
  "displayId = [] \<or> (\<forall>e\<in>set allDisplays. \<not> matchesDisplay displayId e)
   \<Longrightarrow> indicatorScreen allDisplays primaryDisplay displayId = primaryDisplay"
  by (auto simp: indicatorScreen_def filter_empty_conv split: list.splits)

lemma indicatorScreen_first:
  assumes "displayId \<noteq> []" and "\<exists>e\<in>set allDisplays. matchesDisplay displayId e"
  shows "\<exists>pre post. allDisplays = pre @ indicatorScreen allDisplays primaryDisplay displayId # post
           \<and> matchesDisplay displayId (indicatorScreen allDisplays primaryDisplay displayId)
           \<and> (\<forall>e\<in>set pre. \<not> matchesDisplay displayId e)"
proof -
  from assms(2) have "filter (matchesDisplay displayId) allDisplays \<noteq> []"
    by (simp add: filter_empty_conv)
  then obtain d ds where f: "filter (matchesDisplay displayId) allDisplays = d # ds"
    by (cases "filter (matchesDisplay displayId) allDisplays") auto
  with assms(1) have r: "indicatorScreen allDisplays primaryDisplay displayId = d"
    by (simp add: indicatorScreen_def)
  from f obtain us vs where "allDisplays = us @ d # vs" "\<forall>u\<in>set us. \<not> matchesDisplay displayId u"
    "matchesDisplay displayId d"
    by (auto simp: filter_eq_Cons_iff)
  with r show ?thesis by blast
qed

lemma indicatorWindowOpts_eq:
  "indicatorWindowOpts allDisplays primaryDisplay displayId streamId guid =
     \<lparr> opt_width = 592, opt_height = 48,
       opt_x = Some (rect_x (workArea (indicatorScreen allDisplays primaryDisplay displayId))
                + jsRound (of_int (rect_width (workArea (indicatorScreen allDisplays primaryDisplay displayId)) - 592) / 2)),
       opt_y = Some (rect_y (workArea (indicatorScreen allDisplays primaryDisplay displayId))
                + rect_height (workArea (indicatorScreen allDisplays primaryDisplay displayId)) - 48),
       opt_winKey = streamId \<rparr>"
  by (simp add: indicatorWindowOpts_def getScreenSharingIndicatorOpts_def Let_def)

text \<open>
  C8. The indicator goes to the primary display when \<^verbatim>\<open>displayId\<close> is empty or the
  decimal text of no display's id occurs in it, and otherwise to the first display of the
  host's list whose id, as text, occurs in \<^verbatim>\<open>displayId\<close>. The window is 592 by 48, its
  \<open>x\<close> is the work area's \<open>x\<close> plus \<^verbatim>\<open>Math.round\<close> of half the width left over, so
  that the margins left and right differ by at most one, and its \<open>y\<close> puts its lower
  edge on the lower edge of the work area.
\<close>

theorem indicator_display_and_position:
  "(displayId = [] \<or> (\<forall>e\<in>set allDisplays. \<not> matchesDisplay displayId e)
      \<longrightarrow> indicatorScreen allDisplays primaryDisplay displayId = primaryDisplay)
   \<and> (displayId \<noteq> [] \<and> (\<exists>e\<in>set allDisplays. matchesDisplay displayId e)
      \<longrightarrow> (\<exists>pre post.
             allDisplays = pre @ indicatorScreen allDisplays primaryDisplay displayId # post
             \<and> matchesDisplay displayId (indicatorScreen allDisplays primaryDisplay displayId)
             \<and> (\<forall>e\<in>set pre. \<not> matchesDisplay displayId e)))
   \<and> matchesDisplay displayId e
        = (\<exists>ps ss. displayId = ps @ numberToString (display_id e) @ ss)
   \<and> (\<exists>px py. indicatorWindowOpts allDisplays primaryDisplay displayId streamId guid
         = \<lparr> opt_width = 592, opt_height = 48, opt_x = Some px, opt_y = Some py,
             opt_winKey = streamId \<rparr>
       \<and> px = rect_x (workArea (indicatorScreen allDisplays primaryDisplay displayId))
              + jsRound (of_int (rect_width (workArea
                   (indicatorScreen allDisplays primaryDisplay displayId)) - 592) / 2)
       \<and> py = rect_y (workArea (indicatorScreen allDisplays primaryDisplay displayId))
              + rect_height (workArea (indicatorScreen allDisplays primaryDisplay displayId)) - 48
       \<and> (2 * (px - rect_x (workArea (indicatorScreen allDisplays primaryDisplay displayId))) + 592
             = rect_width (workArea (indicatorScreen allDisplays primaryDisplay displayId))
          \<or> 2 * (px - rect_x (workArea (indicatorScreen allDisplays primaryDisplay displayId))) + 592
             = rect_width (workArea (indicatorScreen allDisplays primaryDisplay displayId)) + 1))"
proof -
  let ?d = "indicatorScreen allDisplays primaryDisplay displayId"
  let ?wa = "workArea ?d"
  let ?px = "rect_x ?wa + jsRound (of_int (rect_width ?wa - 592) / 2)"
  let ?py = "rect_y ?wa + rect_height ?wa - 48"
  have fallback: "displayId = [] \<or> (\<forall>e\<in>set allDisplays. \<not> matchesDisplay displayId e)
      \<longrightarrow> ?d = primaryDisplay"
    using indicatorScreen_fallback [of displayId allDisplays primaryDisplay] by blast
  have first: "displayId \<noteq> [] \<and> (\<exists>e\<in>set allDisplays. matchesDisplay displayId e)
      \<longrightarrow> (\<exists>pre post. allDisplays = pre @ ?d # post \<and> matchesDisplay displayId ?d
             \<and> (\<forall>e\<in>set pre. \<not> matchesDisplay displayId e))"
    using indicatorScreen_first [of displayId allDisplays primaryDisplay] by blast
  have occurs: "matchesDisplay displayId e
        = (\<exists>ps ss. displayId = ps @ numberToString (display_id e) @ ss)"
    by (simp add: matchesDisplay_def stringIncludes_iff)
  have "2 * ((rect_width ?wa - 592 + 1) div 2) + 592 = rect_width ?wa
      \<or> 2 * ((rect_width ?wa - 592 + 1) div 2) + 592 = rect_width ?wa + 1"
    by presburger
  then have centred: "2 * (?px - rect_x ?wa) + 592 = rect_width ?wa
      \<or> 2 * (?px - rect_x ?wa) + 592 = rect_width ?wa + 1"
    by (simp only: jsRound_half add_diff_cancel_left')
  have opts: "indicatorWindowOpts allDisplays primaryDisplay displayId streamId guid
         = \<lparr> opt_width = 592, opt_height = 48, opt_x = Some ?px, opt_y = Some ?py,
             opt_winKey = streamId \<rparr>"
    by (rule indicatorWindowOpts_eq)
  from opts centred have position: "\<exists>px py.
      indicatorWindowOpts allDisplays primaryDisplay displayId streamId guid
         = \<lparr> opt_width = 592, opt_height = 48, opt_x = Some px, opt_y = Some py,
             opt_winKey = streamId \<rparr>
       \<and> px = ?px \<and> py = ?py
       \<and> (2 * (px - rect_x ?wa) + 592 = rect_width ?wa
          \<or> 2 * (px - rect_x ?wa) + 592 = rect_width ?wa + 1)"
    by blast
  from fallback first occurs position show ?thesis by blast
qed


theorem indicator_display_and_position_witness:
  "matchesDisplay ''screen:25:0''
      \<lparr>display_id = 25, workArea = \<lparr>rect_x = 1920, rect_y = 0, rect_width = 1281, rect_height = 984\<rparr>\<rparr>
   \<and> indicatorScreen
        [\<lparr>display_id = 7, workArea = \<lparr>rect_x = 0, rect_y = 0, rect_width = 1920, rect_height = 1040\<rparr>\<rparr>,
         \<lparr>display_id = 25, workArea = \<lparr>rect_x = 1920, rect_y = 0, rect_width = 1281, rect_height = 984\<rparr>\<rparr>]
        \<lparr>display_id = 7, workArea = \<lparr>rect_x = 0, rect_y = 0, rect_width = 1920, rect_height = 1040\<rparr>\<rparr>
        ''screen:25:0''
      = \<lparr>display_id = 25, workArea = \<lparr>rect_x = 1920, rect_y = 0, rect_width = 1281, rect_height = 984\<rparr>\<rparr>
   \<and> indicatorWindowOpts
        [\<lparr>display_id = 7, workArea = \<lparr>rect_x = 0, rect_y = 0, rect_width = 1920, rect_height = 1040\<rparr>\<rparr>,
         \<lparr>display_id = 25, workArea = \<lparr>rect_x = 1920, rect_y = 0, rect_width = 1281, rect_height = 984\<rparr>\<rparr>]
        \<lparr>display_id = 7, workArea = \<lparr>rect_x = 0, rect_y = 0, rect_width = 1920, rect_height = 1040\<rparr>\<rparr>
        ''screen:25:0'' ''stream-1'' ''guid-1''
      = \<lparr>opt_width = 592, opt_height = 48, opt_x = Some 2265, opt_y = Some 936,
          opt_winKey = ''stream-1''\<rparr>
   \<and> indicatorScreen
        [\<lparr>display_id = 7, workArea = \<lparr>rect_x = 0, rect_y = 0, rect_width = 1920, rect_height = 1040\<rparr>\<rparr>,
         \<lparr>display_id = 25, workArea = \<lparr>rect_x = 1920, rect_y = 0, rect_width = 1281, rect_height = 984\<rparr>\<rparr>]
        \<lparr>display_id = 7, workArea = \<lparr>rect_x = 0, rect_y = 0, rect_width = 1920, rect_height = 1040\<rparr>\<rparr>
        []
      = \<lparr>display_id = 7, workArea = \<lparr>rect_x = 0, rect_y = 0, rect_width = 1920, rect_height = 1040\<rparr>\<rparr>"
proof -
  let ?d7 = "\<lparr>display_id = 7, workArea = \<lparr>rect_x = 0, rect_y = 0, rect_width = 1920, rect_height = 1040\<rparr>\<rparr>"
  let ?d25 = "\<lparr>display_id = 25, workArea = \<lparr>rect_x = 1920, rect_y = 0, rect_width = 1281, rect_height = 984\<rparr>\<rparr>"
  have m25: "matchesDisplay ''screen:25:0'' ?d25"
    by (simp add: matchesDisplay_def numberToString_def natToString.simps digit_def)
  have m7: "\<not> matchesDisplay ''screen:25:0'' ?d7"
    by (simp add: matchesDisplay_def numberToString_def natToString.simps digit_def)
  from m25 m7 have chosen: "indicatorScreen [?d7, ?d25] ?d7 ''screen:25:0'' = ?d25"
    by (simp add: indicatorScreen_def)
  have round: "jsRound (of_int (1281 - 592) / 2) = 345"
    by (simp add: jsRound_def)
  from indicator_display_and_position [of "[]" "[?d7, ?d25]" ?d7 ?d25 "''stream-1''" "''guid-1''"]
  have fallback: "indicatorScreen [?d7, ?d25] ?d7 [] = ?d7"
    by simp
  from indicator_display_and_position [of "''screen:25:0''" "[?d7, ?d25]" ?d7 ?d25 "''stream-1''" "''guid-1''"]
  obtain px py where
    "indicatorWindowOpts [?d7, ?d25] ?d7 ''screen:25:0'' ''stream-1'' ''guid-1''
       = \<lparr>opt_width = 592, opt_height = 48, opt_x = Some px, opt_y = Some py,
           opt_winKey = ''stream-1''\<rparr>"
    "px = rect_x (workArea (indicatorScreen [?d7, ?d25] ?d7 ''screen:25:0''))
          + jsRound (of_int (rect_width (workArea
               (indicatorScreen [?d7, ?d25] ?d7 ''screen:25:0'')) - 592) / 2)"
    "py = rect_y (workArea (indicatorScreen [?d7, ?d25] ?d7 ''screen:25:0''))
          + rect_height (workArea (indicatorScreen [?d7, ?d25] ?d7 ''screen:25:0'')) - 48"
    by blast
  with chosen round have opts:
    "indicatorWindowOpts [?d7, ?d25] ?d7 ''screen:25:0'' ''stream-1'' ''guid-1''
       = \<lparr>opt_width = 592, opt_height = 48, opt_x = Some 2265, opt_y = Some 936,
           opt_winKey = ''stream-1''\<rparr>"
    by simp
  from m25 chosen opts fallback show ?thesis by simp
qed

section \<open>Properties of the address of the main window\<close>

subsection \<open>Characters and scanning\<close>

lemmas char_defs = lowerAlpha_def upperAlpha_def isDigit_def modelledChar_def protocolChar_def
  nonHostChar_def hostEndingChar_def inHost_def validHostChar_def pathChar_def


lemma pathChar_facts:
  assumes "pathChar c"
  shows "modelledChar c" "autoEscapeChar c = [c]" "c \<noteq> CHR ''#''" "c \<noteq> CHR ''?''"
  using assms by (auto simp: char_defs autoEscapeChar_def)


lemma orEmpty_simps [simp]: "orEmpty None = []" "orEmpty (Some v) = v"
  by (simp_all add: orEmpty_def)

lemma truthy_simps [simp]: "truthy None = False" "truthy (Some v) = (v \<noteq> [])"
  by (simp_all add: truthy_def)






lemma escapePathname_Nil [simp]: "escapePathname [] = []"
  by (simp add: escapePathname_def)

lemma not_https: "p @ '':'' \<noteq> ''https''"
proof
  assume "p @ '':'' = ''https''"
  then have "last (p @ '':'') = last ''https''" by (rule arg_cong)
  then show False by simp
qed



subsection \<open>The parts of an address\<close>

lemma tailChar_facts:
  assumes "tailChar c"
  shows "modelledChar c" "autoEscapeChar c = [c]"
proof -
  from assms consider "pathChar c" | "c = CHR ''?''" | "c = CHR ''#''"
    by (auto simp: tailChar_def)
  then show "modelledChar c"
  proof cases
    case 1 then show ?thesis by (rule pathChar_facts(1))
  next
    case 2 then show ?thesis by (simp add: modelledChar_def)
  next
    case 3 then show ?thesis by (simp add: modelledChar_def)
  qed
  from assms consider "pathChar c" | "c = CHR ''?''" | "c = CHR ''#''"
    by (auto simp: tailChar_def)
  then show "autoEscapeChar c = [c]"
  proof cases
    case 1 then show ?thesis by (rule pathChar_facts(2))
  next
    case 2 then show ?thesis by (simp add: autoEscapeChar_def)
  next
    case 3 then show ?thesis by (simp add: autoEscapeChar_def)
  qed
qed

lemma autoEscapeStr_tail: "list_all tailChar t \<Longrightarrow> autoEscapeStr t = t"
  by (induction t) (simp_all add: autoEscapeStr_def tailChar_facts(2))

lemma escapePathname_id:
  "CHR ''#'' \<notin> set p \<Longrightarrow> CHR ''?'' \<notin> set p \<Longrightarrow> escapePathname p = p"
  by (induction p) (auto simp: escapePathname_def)

lemma escapeHash_id: "CHR ''#'' \<notin> set s \<Longrightarrow> escapeHash s = s"
  by (induction s) (auto simp: escapeHash_def)

lemma splitRest_parts:
  assumes "splitRest t = (pn, se, ha)"
  shows "orEmpty pn @ orEmpty se @ orEmpty ha = t"
    and "escapePathname (orEmpty pn) = orEmpty pn"
    and "escapeHash (orEmpty se) = orEmpty se"
    and "orEmpty se = [] \<or> prefix ''?'' (orEmpty se)"
    and "orEmpty ha = [] \<or> prefix ''#'' (orEmpty ha)"
    and "pn \<noteq> Some []" "se \<noteq> Some []" "ha \<noteq> Some []"
    and "(pn = None) = (t = [] \<or> hd t = CHR ''?'' \<or> hd t = CHR ''#'')"
proof -
  let ?b = "takeWhile (\<lambda>c. c \<noteq> CHR ''#'') t"
  let ?h = "dropWhile (\<lambda>c. c \<noteq> CHR ''#'') t"
  let ?p = "takeWhile (\<lambda>c. c \<noteq> CHR ''?'') ?b"
  let ?s = "dropWhile (\<lambda>c. c \<noteq> CHR ''?'') ?b"
  from assms have pn: "pn = (if ?p = [] then None else Some ?p)"
    and se: "se = (if ?s = [] then None else Some ?s)"
    and ha: "ha = (if ?h = [] then None else Some ?h)"
    by (simp_all add: splitRest_def Let_def)
  have oe: "orEmpty (if x = [] then None else Some x) = x" for x :: string
    by simp
  have op: "orEmpty pn = ?p" and os: "orEmpty se = ?s" and oh: "orEmpty ha = ?h"
    unfolding pn se ha by (rule oe)+
  show "orEmpty pn @ orEmpty se @ orEmpty ha = t"
    unfolding op os oh by (metis append.assoc takeWhile_dropWhile_id)
  have nb: "CHR ''#'' \<notin> set ?b" by (auto dest: set_takeWhileD)
  then have "CHR ''#'' \<notin> set ?p" "CHR ''#'' \<notin> set ?s"
    by (auto dest: set_takeWhileD set_dropWhileD)
  moreover have "CHR ''?'' \<notin> set ?p" by (auto dest: set_takeWhileD)
  ultimately show "escapePathname (orEmpty pn) = orEmpty pn"
    and "escapeHash (orEmpty se) = orEmpty se"
    unfolding op os by (simp_all add: escapePathname_id escapeHash_id)
  show "orEmpty se = [] \<or> prefix ''?'' (orEmpty se)"
    unfolding os using hd_dropWhile [of "\<lambda>c. c \<noteq> CHR ''?''" ?b]
    by (cases ?s) (auto simp: prefix_def)
  show "orEmpty ha = [] \<or> prefix ''#'' (orEmpty ha)"
    unfolding oh using hd_dropWhile [of "\<lambda>c. c \<noteq> CHR ''#''" t]
    by (cases ?h) (auto simp: prefix_def)
  have ne: "(if x = [] then None else Some x) \<noteq> Some []" for x :: string
    by simp
  show "pn \<noteq> Some []" "se \<noteq> Some []" "ha \<noteq> Some []"
    unfolding pn se ha by (rule ne)+
  show "(pn = None) = (t = [] \<or> hd t = CHR ''?'' \<or> hd t = CHR ''#'')"
    unfolding pn by (cases t) auto
qed

lemma format_forced_general:
  assumes "auth r = None" and "protocol r \<noteq> Some ''https''"
    and "truthy (hostname r) \<longrightarrow> truthy (host r)"
    and "escapePathname (orEmpty (pathname r)) = orEmpty (pathname r)"
    and "escapeHash (orEmpty (search r)) = orEmpty (search r)"
    and "orEmpty (search r) = [] \<or> prefix ''?'' (orEmpty (search r))"
    and "orEmpty (hash r) = [] \<or> prefix ''#'' (orEmpty (hash r))"
  shows "format slashed (forceHttps r) =
           ''https://'' @ orEmpty (host r)
           @ (if orEmpty (pathname r) \<noteq> [] \<and> \<not> prefix ''/'' (orEmpty (pathname r))
              then ''/'' @ orEmpty (pathname r) else orEmpty (pathname r))
           @ orEmpty (search r) @ orEmpty (hash r)"
proof -
  from assms(2) have f: "forceHttps r = r\<lparr>protocol := Some ''https:'', slashes := True\<rparr>"
    by (simp add: forceHttps_def)
  have e: "\<not> truthy x \<Longrightarrow> orEmpty x = []" for x
    by (cases x) simp_all
  have eh: "escapeHash [] = []" by (simp add: escapeHash_def)
  show ?thesis
    unfolding f format_def Let_def
    using assms(3,6,7)
    by (cases "truthy (host r)"; cases "orEmpty (search r) = []"; cases "orEmpty (hash r) = []")
       (simp_all add: assms(1,4,5) e eh)
qed



lemma splitRest_head:
  assumes "splitRest t = (Some x, se, ha)"
  shows "x \<noteq> []" "t \<noteq> []" "hd x = hd t"
proof -
  let ?b = "takeWhile (\<lambda>c. c \<noteq> CHR ''#'') t"
  let ?p = "takeWhile (\<lambda>c. c \<noteq> CHR ''?'') ?b"
  from assms have "(if ?p = [] then None else Some ?p) = Some x"
    by (simp add: splitRest_def Let_def)
  then have x: "?p \<noteq> []" "x = ?p" by (simp_all split: if_splits)
  then show "x \<noteq> []" by simp
  from x(1) show "t \<noteq> []" by auto
  from x show "hd x = hd t" by (cases t) (auto split: if_splits)
qed

lemma prefix_slash: "x \<noteq> [] \<Longrightarrow> prefix ''/'' x = (hd x = CHR ''/'')"
  by (cases x) auto


subsection \<open>What getValidUrl returns\<close>




lemma getValidUrl_noscheme:
  assumes u: "list_all tailChar u"
    and noscheme: "protocolPattern u = None" and nouser: "\<not> hostPattern u"
  shows "getValidUrl slashed u =
           Some (''https://'' @ (if u = [] \<or> hostEndingChar (hd u) then u else ''/'' @ u))"
proof -
  obtain pn se ha where split: "splitRest u = (pn, se, ha)" by (cases "splitRest u") auto
  note parts = splitRest_parts [OF split]
  have modelled: "list_all modelledChar u"
    using u tailChar_facts(1) by (simp only: list_all_iff) blast
  have "\<exists>r. parse slashed u = Some r \<and> protocol r = None \<and> auth r = None \<and> host r = None
          \<and> hostname r = None \<and> hash r = ha \<and> search r = se \<and> pathname r = pn"
  proof (cases "CHR ''#'' \<notin> set u \<and> simplePathPattern u")
    case True
    then have ne: "u \<noteq> []" "hd u = CHR ''/''"
      by (auto simp: simplePathPattern_def prefix_def)
    from True have "\<forall>c\<in>set u. c \<noteq> CHR ''#''" by blast
    then have nh: "takeWhile (\<lambda>c. c \<noteq> CHR ''#'') u = u" "dropWhile (\<lambda>c. c \<noteq> CHR ''#'') u = []"
      by (simp_all add: takeWhile_eq_all_conv)
    have tw: "takeWhile (\<lambda>c. c \<noteq> CHR ''?'') u \<noteq> []"
      using ne by (cases u) auto
    from split have s: "pn = Some (takeWhile (\<lambda>c. c \<noteq> CHR ''?'') u)"
      "se = (if dropWhile (\<lambda>c. c \<noteq> CHR ''?'') u = [] then None
             else Some (dropWhile (\<lambda>c. c \<noteq> CHR ''?'') u))"
      "ha = None"
      unfolding splitRest_def Let_def nh using tw by simp_all
    have "parse slashed u = Some (parseSimplePath u)"
      using True by (simp only: parse_def modelled) simp
    then show ?thesis
      unfolding s by (simp add: parseSimplePath_def emptyUrl_def)
  next
    case False
    have esc: "autoEscapeStr u = u" using u by (rule autoEscapeStr_tail)
    have p1: "parse slashed u = parseWithProtocol slashed None u"
      using False by (simp only: parse_def modelled noscheme) simp
    have p2: "parseWithProtocol slashed None u = Some (finishParse slashed None False None u)"
      unfolding parseWithProtocol_def using nouser by (simp add: Let_def hostlessProtocol_def)
    have p3: "finishParse slashed None False None u
        = withHref slashed (withPath (emptyUrl\<lparr> hash := ha, search := se, query := map_option tl se,
                                 pathname := pn \<rparr>))"
      unfolding finishParse_def
      by (simp add: Let_def esc split unsafeProtocol_def slashedProtocol_def emptyUrl_def)
    show ?thesis
      unfolding p1 p2 p3 by (simp add: withHref_def withPath_def emptyUrl_def)
  qed
  then obtain r where r: "parse slashed u = Some r"
    and f: "protocol r = None" "auth r = None" "host r = None" "hostname r = None"
      "hash r = ha" "search r = se" "pathname r = pn"
    by blast
  have np: "protocol r \<noteq> Some ''https''" by (simp add: f(1))
  have th: "truthy (hostname r) \<longrightarrow> truthy (host r)" by (simp add: f(3,4))
  have ep: "escapePathname (orEmpty (pathname r)) = orEmpty (pathname r)"
    unfolding f(7) by (rule parts(2))
  have es: "escapeHash (orEmpty (search r)) = orEmpty (search r)"
    unfolding f(6) by (rule parts(3))
  have s1: "orEmpty (search r) = [] \<or> prefix ''?'' (orEmpty (search r))"
    unfolding f(6) by (rule parts(4))
  have s2: "orEmpty (hash r) = [] \<or> prefix ''#'' (orEmpty (hash r))"
    unfolding f(5) by (rule parts(5))
  have fo: "format slashed (forceHttps r) =
           ''https://'' @ orEmpty (host r)
           @ (if orEmpty (pathname r) \<noteq> [] \<and> \<not> prefix ''/'' (orEmpty (pathname r))
              then ''/'' @ orEmpty (pathname r) else orEmpty (pathname r))
           @ orEmpty (search r) @ orEmpty (hash r)"
    using f(2) np th ep es s1 s2 by (rule format_forced_general)
  have tail: "(if orEmpty (pathname r) \<noteq> [] \<and> \<not> prefix ''/'' (orEmpty (pathname r))
              then ''/'' @ orEmpty (pathname r) else orEmpty (pathname r))
           @ orEmpty (search r) @ orEmpty (hash r)
         = (if u = [] \<or> hostEndingChar (hd u) then u else ''/'' @ u)"
  proof (cases pn)
    case None
    with parts(9) have e: "u = [] \<or> hd u = CHR ''?'' \<or> hd u = CHR ''#''" by simp
    then have "u = [] \<or> hostEndingChar (hd u)" by (auto simp: hostEndingChar_def)
    moreover from parts(1) None have "orEmpty se @ orEmpty ha = u" by simp
    ultimately show ?thesis using None by (simp add: f(5,6,7))
  next
    case (Some x)
    with split have hd: "x \<noteq> []" "u \<noteq> []" "hd x = hd u"
      using splitRest_head by blast+
    from parts(9) Some have nq: "hd u \<noteq> CHR ''?''" "hd u \<noteq> CHR ''#''" by simp_all
    then have he: "hostEndingChar (hd u) = (hd u = CHR ''/'')"
      by (auto simp: hostEndingChar_def)
    from parts(1) Some have "x @ orEmpty se @ orEmpty ha = u" by simp
    with Some hd he show ?thesis by (simp add: f(5,6,7) prefix_slash)
  qed
  have "format slashed (forceHttps r) = ''https://'' @ (if u = [] \<or> hostEndingChar (hd u) then u else ''/'' @ u)"
    unfolding fo tail by (simp add: f(3))
  then show ?thesis using r by (simp only: getValidUrl_def option.case)
qed

subsection \<open>getValidUrl applied twice\<close>








subsection \<open>The result begins with https://\<close>

lemma forceHttps_slashes:
  "protocol r \<noteq> Some ''https'' \<Longrightarrow> prefix ''https://'' (format slashed (forceHttps r))"
  by (simp add: forceHttps_def format_def Let_def prefix_def)

lemma finishParse_protocol: "protocol (finishParse slashed lp sl hf rest) = lp"
  unfolding finishParse_def
  by (simp add: Let_def withHref_def withPath_def emptyUrl_def split: prod.splits)

lemma parseWithProtocol_protocol:
  "parseWithProtocol slashed proto u = Some r \<Longrightarrow> protocol r = map_option toLowerCase proto"
  unfolding parseWithProtocol_def Let_def
  by (auto simp: finishParse_protocol split: if_splits option.splits prod.splits)

lemma parse_protocol:
  assumes "parse slashed u = Some r"
  shows "protocol r = None \<or> (\<exists>p. protocol r = Some (p @ '':''))"
proof -
  have pp: "protocolPattern u = None \<or> (\<exists>p. protocolPattern u = Some (p @ '':''))"
    by (simp add: protocolPattern_def Let_def)
  have lw: "toLowerCase (p @ '':'') = toLowerCase p @ '':''" for p
    by (simp add: toLowerCase_def toLowerChar_def)
  from assms have m: "list_all modelledChar u"
    by (cases "list_all modelledChar u") (simp_all add: parse_def)
  show ?thesis
  proof (cases "CHR ''#'' \<notin> set u \<and> simplePathPattern u")
    case True
    with assms m have "r = parseSimplePath u"
      by (simp add: parse_def)
    then show ?thesis by (simp add: parseSimplePath_def emptyUrl_def)
  next
    case False
    with assms m have w: "parseWithProtocol slashed (protocolPattern u) u = Some r"
      by (simp add: parse_def)
    then have "protocol r = map_option toLowerCase (protocolPattern u)"
      by (rule parseWithProtocol_protocol)
    with pp lw show ?thesis by auto
  qed
qed

lemma getValidUrl_https:
  assumes "getValidUrl slashed u = Some a" shows "prefix ''https://'' a"
proof -
  from assms obtain r where r: "parse slashed u = Some r" and a: "a = format slashed (forceHttps r)"
    by (auto simp: getValidUrl_def split: option.splits)
  from parse_protocol [OF r] have "protocol r \<noteq> Some ''https''"
    using not_https by auto
  with a show ?thesis by (simp add: forceHttps_slashes)
qed

subsection \<open>The texts on which parse returns\<close>

lemma hostPattern_at: "hostPattern x \<Longrightarrow> CHR ''@'' \<in> set x"
proof -
  assume "hostPattern x"
  then obtain a c cs where
    d: "dropWhile (\<lambda>c. c \<noteq> CHR ''@'' \<and> c \<noteq> CHR ''/'') (drop 2 x) = a # c # cs"
    and a: "a = CHR ''@''"
    by (auto simp: hostPattern_def split: list.splits)
  have "a \<in> set (dropWhile (\<lambda>c. c \<noteq> CHR ''@'' \<and> c \<noteq> CHR ''/'') (drop 2 x))"
    unfolding d by simp
  then have "a \<in> set (drop 2 x)" by (rule set_dropWhileD)
  then have "a \<in> set x" by (rule in_set_dropD)
  with a show ?thesis by simp
qed

lemma parseHostPart_total:
  "CHR ''@'' \<notin> set x \<Longrightarrow> \<exists>y. parseHostPart x = Some y"
  by (auto simp: parseHostPart_def Let_def dest: set_takeWhileD)

lemma parseWithProtocol_total:
  assumes "CHR ''@'' \<notin> set u"
  shows "\<exists>r. parseWithProtocol slashed proto u = Some r"
proof -
  let ?rest1 = "drop (length (orEmpty proto)) u"
  have r1: "CHR ''@'' \<notin> set ?rest1" using assms by (auto dest: in_set_dropD)
  then have nh: "\<not> hostPattern ?rest1" using hostPattern_at by blast
  have r2: "CHR ''@'' \<notin> set (drop 2 ?rest1)" using assms by (auto dest: in_set_dropD)
  from r1 obtain y1 where y1: "parseHostPart ?rest1 = Some y1"
    using parseHostPart_total by blast
  from r2 obtain y2 where y2: "parseHostPart (drop 2 ?rest1) = Some y2"
    using parseHostPart_total by blast
  show ?thesis
    unfolding parseWithProtocol_def Let_def
    using nh y1 y2 by (auto split: option.splits prod.splits)
qed

lemma parse_total:
  assumes "list_all modelledChar u" "CHR ''@'' \<notin> set u"
  shows "\<exists>r. parse slashed u = Some r"
  using assms parseWithProtocol_total [of u slashed "protocolPattern u"]
  by (simp add: parse_def)

lemma getValidUrl_total:
  assumes "list_all modelledChar u" "CHR ''@'' \<notin> set u"
  shows "\<exists>a. getValidUrl slashed u = Some a \<and> prefix ''https://'' a"
proof -
  from parse_total [OF assms] obtain r where "parse slashed u = Some r" by blast
  then have "getValidUrl slashed u = Some (format slashed (forceHttps r))"
    by (simp add: getValidUrl_def)
  then show ?thesis using getValidUrl_https by blast
qed

subsection \<open>The claims about getValidUrl\<close>

text \<open>
  C5. The claim is that an address without a scheme such as \<^verbatim>\<open>example.com/app\<close> yields
  \<^verbatim>\<open>https://example.com/app\<close>. \<^verbatim>\<open>parse\<close> finds no protocol in this address and reads
  all of it as a path, with no host; \<^verbatim>\<open>getValidUrl\<close> sets the protocol and the slashes,
  and \<^verbatim>\<open>format\<close> writes \<^verbatim>\<open>https:\<close>, the two slashes, an empty host, and the address as
  a path behind a slash of its own: \<^verbatim>\<open>https:///example.com/app\<close>, whatever the table of
  the runtime.
\<close>

theorem getValidUrl_schemeless_example:
  "\<forall>slashed. getValidUrl slashed ''example.com/app'' = Some ''https:///example.com/app''"
proof -
  have u: "list_all tailChar ''example.com/app''" "protocolPattern ''example.com/app'' = None"
    "\<not> hostPattern ''example.com/app''" by code_simp+
  have "getValidUrl slashed ''example.com/app'' = Some ''https:///example.com/app''" for slashed
    using getValidUrl_noscheme [OF u, of slashed] by (simp add: hostEndingChar_def)
  then show ?thesis by blast
qed




subsection \<open>The address that createApplication loads\<close>

text \<open>
  C9, as amended. When the command line has a token matching \<^verbatim>\<open>--url=\<close> and something
  follows its first 6 characters, the address is exactly what follows, as it is written:
  nothing is done to it. When the token is only those 6 characters, or there is no such
  token, the address is \<^verbatim>\<open>getValidUrl\<close> of the configured address: what \<^verbatim>\<open>format\<close>
  writes for the object that \<^verbatim>\<open>parse\<close> returns, once its protocol is \<^verbatim>\<open>https:\<close> and
  its slashes are set. Whatever that object is, if only its protocol is not the text
  \<^verbatim>\<open>https\<close> without its colon (\<^verbatim>\<open>parse\<close> writes every protocol with its colon), what
  is written begins with \<^verbatim>\<open>https://\<close>.
\<close>

theorem resolveUrl_cases:
  "(drop 6 tok \<noteq> [] \<longrightarrow> resolveUrl slashed (Some tok) cfg = Some (drop 6 tok))
   \<and> (drop 6 tok = [] \<longrightarrow> resolveUrl slashed (Some tok) cfg = getValidUrl slashed cfg)
   \<and> resolveUrl slashed None cfg = getValidUrl slashed cfg
   \<and> getValidUrl slashed cfg
       = map_option (\<lambda>parsedUrl. format slashed (forceHttps parsedUrl)) (parse slashed cfg)
   \<and> (protocol r \<noteq> Some ''https'' \<longrightarrow> prefix ''https://'' (format slashed (forceHttps r)))"
proof -
  have "getValidUrl slashed cfg
       = map_option (\<lambda>parsedUrl. format slashed (forceHttps parsedUrl)) (parse slashed cfg)"
    by (simp add: getValidUrl_def split: option.splits)
  then show ?thesis
    using forceHttps_slashes [of r slashed] by (auto simp: resolveUrl_def)
qed

text \<open>
  A token with an address, a token without one, and no token, with the configured address
  \<^verbatim>\<open>http://my.symphony.com\<close>; the object that \<^verbatim>\<open>parse\<close> returns for the address
  \<^verbatim>\<open>my.symphony.com:8443\<close>, whose protocol is \<^verbatim>\<open>my.symphony.com:\<close>.
\<close>

theorem resolveUrl_cases_witness:
  "resolveUrl slashedProtocols (Some ''--url=https://corporate.symphony.com'')
       ''http://my.symphony.com''
     = Some ''https://corporate.symphony.com''
   \<and> resolveUrl slashedProtocols (Some ''--url='') ''http://my.symphony.com''
     = Some ''https://my.symphony.com/''
   \<and> resolveUrl slashedProtocols None ''http://my.symphony.com''
     = Some ''https://my.symphony.com/''
   \<and> map_option protocol (parse slashedProtocols ''my.symphony.com:8443'')
     = Some (Some ''my.symphony.com:'')
   \<and> map_option (\<lambda>r. prefix ''https://'' (format slashedProtocols (forceHttps r)))
         (parse slashedProtocols ''my.symphony.com:8443'') = Some True"
proof -
  have g: "getValidUrl slashedProtocols ''http://my.symphony.com''
             = Some ''https://my.symphony.com/''" by code_simp
  obtain r where r: "parse slashedProtocols ''my.symphony.com:8443'' = Some r"
    using parse_total [of "''my.symphony.com:8443''" slashedProtocols]
    by (auto simp: modelledChar_def lowerAlpha_def upperAlpha_def isDigit_def)
  have "map_option protocol (parse slashedProtocols ''my.symphony.com:8443'')
     = Some (Some ''my.symphony.com:'')" by code_simp
  with r have p: "protocol r = Some ''my.symphony.com:''" by simp
  from resolveUrl_cases
         [of "''--url=https://corporate.symphony.com''" slashedProtocols
             "''http://my.symphony.com''" r] p
  have a: "resolveUrl slashedProtocols (Some ''--url=https://corporate.symphony.com'')
               ''http://my.symphony.com''
             = Some ''https://corporate.symphony.com''
     \<and> prefix ''https://'' (format slashedProtocols (forceHttps r))"
    by simp
  from resolveUrl_cases [of "''--url=''" slashedProtocols "''http://my.symphony.com''" r] g
  have b: "resolveUrl slashedProtocols (Some ''--url='') ''http://my.symphony.com''
       = Some ''https://my.symphony.com/''
     \<and> resolveUrl slashedProtocols None ''http://my.symphony.com''
       = Some ''https://my.symphony.com/''"
    by simp
  from a b r p show ?thesis by simp
qed

text \<open>
  C9 as stated fails: the address \<^verbatim>\<open>example.com\<close> given on the command line is used
  without a scheme, and the token \<^verbatim>\<open>--url=\<close> alone does not take precedence over the
  configured address.
\<close>

theorem resolveUrl_claim_counterexample:
  "resolveUrl slashedProtocols (Some ''--url=example.com'') ''https://my.symphony.com''
     = Some ''example.com''
   \<and> \<not> prefix ''https'' ''example.com''
   \<and> resolveUrl slashedProtocols (Some ''--url='') ''https://my.symphony.com''
     = Some ''https://my.symphony.com/''
   \<and> resolveUrl slashedProtocolsWs (Some ''--url=example.com'') ''https://my.symphony.com''
     = Some ''example.com''"
  by code_simp

end
